theory Spec2Isabelle
  imports Main
begin

section \<open>Strings\<close>

text \<open>
  A JavaScript string is a sequence of UTF-16 code units. It is modelled here as an
  Isabelle \<^typ>\<open>string\<close>, a list of 8-bit characters read as the code units below 256
  (ASCII and the Latin-1 supplement). On such strings the two built-in methods used by
  the service are the functions below.
\<close>

text \<open>
  \<^verbatim>\<open>String.prototype.trim\<close> removes the WhiteSpace and LineTerminator code points from
  both ends. Below 256 these are TAB, LF, VT, FF, CR, SP and NBSP (U+00A0).
\<close>

definition isWhiteSpace :: "char \<Rightarrow> bool" where
  "isWhiteSpace c = ((of_char c :: nat) \<in> {9, 10, 11, 12, 13, 32, 160})"

definition trim :: "string \<Rightarrow> string" where
  "trim s = rev (dropWhile isWhiteSpace (rev (dropWhile isWhiteSpace s)))"

text \<open>
  \<^verbatim>\<open>String.prototype.toLowerCase\<close> maps each code unit to its Unicode lower case. Below
  256 the letters with a lower case are A-Z and U+00C0-U+00DE without the multiplication
  sign U+00D7; each is mapped 32 code units up.
\<close>

definition toLowerChar :: "char \<Rightarrow> char" where
  "toLowerChar c =
     (let n = (of_char c :: nat)
      in if (65 \<le> n \<and> n \<le> 90) \<or> (192 \<le> n \<and> n \<le> 222 \<and> n \<noteq> 215)
         then char_of (n + 32) else c)"

definition toLowerCase :: "string \<Rightarrow> string" where
  "toLowerCase s = map toLowerChar s"

section \<open>The cache key of \<^verbatim>\<open>fetchEtymology\<close>\<close>

text \<open>
  \<^verbatim>\<open>const cacheKey = `${word.trim().toLowerCase()}-${language.trim().toLowerCase()}`;\<close>
\<close>

definition cacheKey :: "string \<Rightarrow> string \<Rightarrow> string" where
  "cacheKey word language =
     toLowerCase (trim word) @ ''-'' @ toLowerCase (trim language)"

section \<open>Data model (\<^verbatim>\<open>types.ts\<close>)\<close>

text \<open>
  The string-literal union types become datatypes, and the interfaces become records.
  Field names are prefixed with their interface, since \<^verbatim>\<open>word\<close>, \<^verbatim>\<open>language\<close>,
  \<^verbatim>\<open>type\<close> and \<^verbatim>\<open>era\<close> occur in several of them. An optional field is an
  \<^typ>\<open>'a option\<close>.
\<close>

datatype TimelineStepType =
  StepRoot | StepAncestor | StepDerived | StepCognate | StepBorrowing | StepCurrent

datatype GraphNodeType =
  NodeRoot | NodeAncestor | NodeCurrent | NodeCognate | NodeDerivative

datatype GraphLinkType =
  LinkDerived | LinkBorrowed | LinkCognate

text \<open>The string each member of the unions is at run time.\<close>

fun stepTypeName :: "TimelineStepType \<Rightarrow> string" where
  "stepTypeName StepRoot = ''root''"
| "stepTypeName StepAncestor = ''ancestor''"
| "stepTypeName StepDerived = ''derived''"
| "stepTypeName StepCognate = ''cognate''"
| "stepTypeName StepBorrowing = ''borrowing''"
| "stepTypeName StepCurrent = ''current''"

fun nodeTypeName :: "GraphNodeType \<Rightarrow> string" where
  "nodeTypeName NodeRoot = ''root''"
| "nodeTypeName NodeAncestor = ''ancestor''"
| "nodeTypeName NodeCurrent = ''current''"
| "nodeTypeName NodeCognate = ''cognate''"
| "nodeTypeName NodeDerivative = ''derivative''"

fun linkTypeName :: "GraphLinkType \<Rightarrow> string" where
  "linkTypeName LinkDerived = ''derived''"
| "linkTypeName LinkBorrowed = ''borrowed''"
| "linkTypeName LinkCognate = ''cognate''"

record TimelineStep =
  step_era :: string
  step_year_approx :: "string option"
  step_language :: string
  step_word :: string
  step_transliteration :: "string option"
  step_meaning :: string
  step_type :: TimelineStepType
  step_description :: "string option"

record GraphNode =
  node_id :: string
  node_label :: string
  node_transliteration :: "string option"
  node_language :: string
  node_definition :: "string option"
  node_era :: "string option"
  node_type :: GraphNodeType
  node_val :: "int option"

record GraphLink =
  link_source :: string
  link_target :: string
  link_type :: GraphLinkType

record EtymologyGraph =
  nodes :: "GraphNode list"
  links :: "GraphLink list"

record EtymologyData =
  data_word :: string
  data_language :: string
  data_summary :: string
  timeline :: "TimelineStep list"
  graph :: EtymologyGraph

datatype LoadingState = IDLE | LOADING | SUCCESS | ERROR

section \<open>The response schema (\<^verbatim>\<open>geminiService.ts\<close>)\<close>

text \<open>
  A \<^verbatim>\<open>Schema\<close> object of the client library, with the six fields the service uses.
  \<^verbatim>\<open>properties\<close> keeps the order of the object literal.
\<close>

datatype SchemaType = STRING | ARRAY | OBJECT

datatype Schema =
  Schema (schemaType: SchemaType)
         (description: "string option")
         (enum: "string list option")
         (items: "Schema option")
         (properties: "(string \<times> Schema) list")
         (required: "string list option")

text \<open>The shapes of object literal that occur in \<^verbatim>\<open>responseSchema\<close>.\<close>

definition stringSchema :: Schema where
  "stringSchema = Schema STRING None None None [] None"

definition describedSchema :: "string \<Rightarrow> Schema" where
  "describedSchema d = Schema STRING (Some d) None None [] None"

definition enumSchema :: "string list \<Rightarrow> Schema" where
  "enumSchema es = Schema STRING None (Some es) None [] None"

definition arraySchema :: "Schema \<Rightarrow> Schema" where
  "arraySchema item = Schema ARRAY None None (Some item) [] None"

definition objectSchema :: "(string \<times> Schema) list \<Rightarrow> string list \<Rightarrow> Schema" where
  "objectSchema props req = Schema OBJECT None None None props (Some req)"

definition sq :: char where "sq = CHR 0x27"
definition dq :: char where "dq = CHR 0x22"
definition nl :: char where "nl = CHR 0x0A"

definition responseSchema :: Schema where
  "responseSchema =
     objectSchema
       [(''word'', stringSchema),
        (''language'', stringSchema),
        (''summary'', stringSchema),
        (''timeline'',
           arraySchema
             (objectSchema
                [(''era'', stringSchema),
                 (''language'', stringSchema),
                 (''word'', stringSchema),
                 (''transliteration'',
                    describedSchema
                      ''Romanization for non-Latin scripts (e.g., Pinyin, Romaji)''),
                 (''meaning'', stringSchema),
                 (''type'',
                    enumSchema [''root'', ''ancestor'', ''derived'', ''cognate'',
                                ''borrowing'', ''current'']),
                 (''description'', stringSchema)]
                [''era'', ''language'', ''word'', ''meaning'', ''type''])),
        (''graph'',
           objectSchema
             [(''nodes'',
                 arraySchema
                   (objectSchema
                      [(''id'', stringSchema),
                       (''label'', stringSchema),
                       (''transliteration'',
                          describedSchema ''Romanization for non-Latin scripts''),
                       (''language'', stringSchema),
                       (''definition'',
                          describedSchema ''Short English definition/gloss of the word''),
                       (''era'',
                          describedSchema
                            (''Approximate time period (e.g., '' @ [sq] @ ''12th Century''
                               @ [sq] @ '', '' @ [sq] @ ''PIE'' @ [sq] @ '', '' @ [sq]
                               @ ''1600s'' @ [sq] @ '')'')),
                       (''type'',
                          enumSchema [''root'', ''ancestor'', ''current'', ''cognate'',
                                      ''derivative''])]
                      [''id'', ''label'', ''language'', ''type'', ''definition'', ''era''])),
              (''links'',
                 arraySchema
                   (objectSchema
                      [(''source'', describedSchema ''Must match a node id''),
                       (''target'', describedSchema ''Must match a node id''),
                       (''type'', enumSchema [''derived'', ''borrowed'', ''cognate''])]
                      [''source'', ''target'', ''type'']))]
             [''nodes'', ''links''])]
       [''word'', ''language'', ''summary'', ''timeline'', ''graph'']"

text \<open>Navigation in a schema: the sub-schema of a property, and of an array's items.\<close>

definition property :: "string \<Rightarrow> Schema \<Rightarrow> Schema option" where
  "property name s = map_of (properties s) name"

text \<open>
  The schemas of the elements of \<^verbatim>\<open>timeline\<close>, of \<^verbatim>\<open>graph.nodes\<close> and of
  \<^verbatim>\<open>graph.links\<close>, where \<^verbatim>\<open>responseSchema\<close> has them.
\<close>

definition timelineItemSchema :: "Schema option" where
  "timelineItemSchema = Option.bind (property ''timeline'' responseSchema) items"

definition nodeItemSchema :: "Schema option" where
  "nodeItemSchema =
     Option.bind (Option.bind (property ''graph'' responseSchema) (property ''nodes'')) items"

definition linkItemSchema :: "Schema option" where
  "linkItemSchema =
     Option.bind (Option.bind (property ''graph'' responseSchema) (property ''links'')) items"

text \<open>The names of the properties of an object schema, and the enumeration of one of them.\<close>

definition propertyNames :: "Schema option \<Rightarrow> string list" where
  "propertyNames s = (case s of None \<Rightarrow> [] | Some sch \<Rightarrow> map fst (properties sch))"

definition requiredNames :: "Schema option \<Rightarrow> string list option" where
  "requiredNames s = Option.bind s required"

definition enumOf :: "string \<Rightarrow> Schema option \<Rightarrow> string list option" where
  "enumOf name s = Option.bind (Option.bind s (property name)) enum"

section \<open>The request (\<^verbatim>\<open>geminiService.ts\<close>)\<close>

record GenerateContentConfig =
  responseMimeType :: string
  config_responseSchema :: Schema
  thinkingBudget :: int

record GenerateContentParameters =
  model :: string
  contents :: string
  config :: GenerateContentConfig

text \<open>The template literal \<^verbatim>\<open>prompt\<close>, line by line.\<close>

definition prompt :: "string \<Rightarrow> string \<Rightarrow> string" where
  "prompt word language = concat
     [[nl],
      ''    Analyze the etymology of the word '', [dq], word, [dq], '' in '', language,
        ''.'', [nl],
      ''    '', [nl],
      ''    1. Timeline: Direct lineage to the root. Keep descriptions concise.'', [nl],
      ''    2. Graph: Network of related words. Include the root, ancestors, and 3 distinct cognates. '',
        [nl],
      ''       **Crucial**: Provide a short English definition (gloss) AND approximate era/time period for EVERY node in the graph.'',
        [nl],
      ''    3. Summary: A concise paragraph explaining the origin.'', [nl],
      ''    '', [nl],
      ''    IMPORTANT for non-Latin scripts:'', [nl],
      ''    - Use NATIVE script for '', [sq], ''word'', [sq], ''/'', [sq], ''label'', [sq],
        ''.'', [nl],
      ''    - Provide Romanization in '', [sq], ''transliteration'', [sq], ''.'', [nl],
      ''    '', [nl],
      ''    Return strict JSON.'', [nl],
      ''  '']"

definition generateContentParameters :: "string \<Rightarrow> string \<Rightarrow> GenerateContentParameters" where
  "generateContentParameters word language =
     \<lparr> model = ''gemini-3-flash-preview'',
       contents = prompt word language,
       config = \<lparr> responseMimeType = ''application/json'',
                  config_responseSchema = responseSchema,
                  thinkingBudget = 0 \<rparr> \<rparr>"

section \<open>\<^verbatim>\<open>fetchEtymology\<close>\<close>

text \<open>
  The value a rejected \<^verbatim>\<open>generateContent\<close> promise carries. The \<^verbatim>\<open>catch\<close> parameters
  are untyped, so it may be \<^verbatim>\<open>null\<close> or \<^verbatim>\<open>undefined\<close>; of any other value only the
  property \<^verbatim>\<open>message\<close> is read, which is a string or missing.
\<close>

datatype rejection = Nullish | Value "string option"

text \<open>
  What \<^verbatim>\<open>fetchEtymology\<close> throws: the rejection of \<^verbatim>\<open>generateContent\<close>, rethrown as it
  is, \<^verbatim>\<open>new Error("No response from Gemini")\<close>, or the \<^verbatim>\<open>SyntaxError\<close> of
  \<^verbatim>\<open>JSON.parse\<close> with its message.
\<close>

datatype js_error = ApiError rejection | NoResponse | SyntaxError string

text \<open>
  The property read \<^verbatim>\<open>err.message\<close>: \<^term>\<open>None\<close> when the read itself throws a
  \<^verbatim>\<open>TypeError\<close>, as it does on \<^verbatim>\<open>null\<close> and \<^verbatim>\<open>undefined\<close>; otherwise the message, or
  \<^term>\<open>Some None\<close> for \<^verbatim>\<open>undefined\<close>.
\<close>

fun message :: "js_error \<Rightarrow> string option option" where
  "message (ApiError Nullish) = None"
| "message (ApiError (Value m)) = Some m"
| "message NoResponse = Some (Some ''No response from Gemini'')"
| "message (SyntaxError m) = Some (Some m)"

text \<open>
  How the awaited \<^verbatim>\<open>generateContent\<close> call ends: it rejects, or it resolves with a response
  whose \<^verbatim>\<open>text\<close> is a string or \<^verbatim>\<open>undefined\<close>.
\<close>

datatype api_outcome = Rejected rejection | Resolved "string option"

text \<open>A line written by \<^verbatim>\<open>console.error\<close>, in the service or in the component.\<close>

datatype log_entry = GeminiApiError js_error | AppError js_error

text \<open>
  The module state: the map \<^verbatim>\<open>searchCache\<close> and, as the observable effects, the requests
  handed to \<^verbatim>\<open>ai.models.generateContent\<close> (oldest first, each with the cache key of the
  call that issued it) and the console.
\<close>

record 'd ServiceState =
  searchCache :: "string \<rightharpoonup> 'd"
  requests :: "(string \<times> GenerateContentParameters) list"
  console :: "log_entry list"

text \<open>
  \<^verbatim>\<open>fetchEtymology\<close> is an \<^verbatim>\<open>async\<close> function with one \<^verbatim>\<open>await\<close>. It runs in two
  steps, each atomic: from the call to the \<^verbatim>\<open>await\<close> (the cache lookup and, on a miss,
  the request), and from the settlement of the request to the return or throw.
  \<^verbatim>\<open>JSON.parse\<close> is a parameter: \<^term>\<open>Inl m\<close> is a \<^verbatim>\<open>SyntaxError\<close> with message \<^term>\<open>m\<close>,
  \<^term>\<open>Inr d\<close> the parsed value, which the source casts to \<^verbatim>\<open>EtymologyData\<close> unchecked.
\<close>

datatype 'd fetch_begin = Hit 'd | Miss string

definition fetchEtymology_begin ::
  "string \<Rightarrow> string \<Rightarrow> 'd ServiceState \<Rightarrow> 'd fetch_begin \<times> 'd ServiceState" where
  "fetchEtymology_begin word language st =
     (let key = cacheKey word language
      in case searchCache st key of
           Some d \<Rightarrow> (Hit d, st)
         | None \<Rightarrow>
             (Miss key,
              st\<lparr>requests := requests st @ [(key, generateContentParameters word language)]\<rparr>))"

text \<open>The \<^verbatim>\<open>try\<close> block after the \<^verbatim>\<open>await\<close>, up to \<^verbatim>\<open>JSON.parse\<close>.\<close>

definition parseResponse :: "(string \<Rightarrow> string + 'd) \<Rightarrow> api_outcome \<Rightarrow> js_error + 'd" where
  "parseResponse JSON_parse outcome =
     (case outcome of
        Rejected m \<Rightarrow> Inl (ApiError m)
      | Resolved None \<Rightarrow> Inl NoResponse
      | Resolved (Some text) \<Rightarrow>
          if text = [] then Inl NoResponse
          else (case JSON_parse text of
                  Inl m \<Rightarrow> Inl (SyntaxError m)
                | Inr d \<Rightarrow> Inr d))"

definition fetchEtymology_settle ::
  "(string \<Rightarrow> string + 'd) \<Rightarrow> string \<Rightarrow> api_outcome \<Rightarrow> 'd ServiceState
     \<Rightarrow> (js_error + 'd) \<times> 'd ServiceState" where
  "fetchEtymology_settle JSON_parse key outcome st =
     (case parseResponse JSON_parse outcome of
        Inr d \<Rightarrow> (Inr d, st\<lparr>searchCache := (searchCache st)(key \<mapsto> d)\<rparr>)
      | Inl err \<Rightarrow> (Inl err, st\<lparr>console := console st @ [GeminiApiError err]\<rparr>))"

text \<open>The second step of a call, after the step \<^const>\<open>fetchEtymology_begin\<close> returned \<open>b\<close>.\<close>

definition fetchEtymology_resume ::
  "(string \<Rightarrow> string + 'd) \<Rightarrow> 'd fetch_begin \<Rightarrow> api_outcome \<Rightarrow> 'd ServiceState
     \<Rightarrow> (js_error + 'd) \<times> 'd ServiceState" where
  "fetchEtymology_resume JSON_parse b outcome st =
     (case b of
        Hit d \<Rightarrow> (Inr d, st)
      | Miss key \<Rightarrow> fetchEtymology_settle JSON_parse key outcome st)"

text \<open>
  A call awaited to its end with nothing else running in between. \<open>outcome\<close> is how the
  request ends if the call issues one.
\<close>

definition fetchEtymology ::
  "(string \<Rightarrow> string + 'd) \<Rightarrow> api_outcome \<Rightarrow> string \<Rightarrow> string \<Rightarrow> 'd ServiceState
     \<Rightarrow> (js_error + 'd) \<times> 'd ServiceState" where
  "fetchEtymology JSON_parse outcome word language st =
     (case fetchEtymology_begin word language st of
        (b, st') \<Rightarrow> fetchEtymology_resume JSON_parse b outcome st')"

text \<open>
  A session of the module: calls begin and requests settle in any order. A settlement is
  allowed for any key at any time, which covers every interleaving of overlapping calls.
\<close>

datatype service_event = Call string string | Settle string api_outcome

fun service_step :: "(string \<Rightarrow> string + 'd) \<Rightarrow> service_event \<Rightarrow> 'd ServiceState \<Rightarrow> 'd ServiceState" where
  "service_step JSON_parse (Call word language) st = snd (fetchEtymology_begin word language st)"
| "service_step JSON_parse (Settle key outcome) st =
     snd (fetchEtymology_settle JSON_parse key outcome st)"

fun service_run :: "(string \<Rightarrow> string + 'd) \<Rightarrow> service_event list \<Rightarrow> 'd ServiceState \<Rightarrow> 'd ServiceState" where
  "service_run JSON_parse [] st = st"
| "service_run JSON_parse (ev # evs) st = service_run JSON_parse evs (service_step JSON_parse ev st)"

text \<open>The number of requests issued so far by calls with the cache key \<open>key\<close>.\<close>

definition requestsFor :: "string \<Rightarrow> 'd ServiceState \<Rightarrow> nat" where
  "requestsFor key st = length (filter (\<lambda>r. fst r = key) (requests st))"

definition initialService :: "'d ServiceState" where
  "initialService = \<lparr> searchCache = Map.empty, requests = [], console = [] \<rparr>"

section \<open>Constants (\<^verbatim>\<open>constants.ts\<close>)\<close>

definition COMMON_LANGUAGES :: "string list" where
  "COMMON_LANGUAGES =
     [''English'', ''Spanish'', ''French'', ''German'', ''Italian'', ''Portuguese'',
      ''Russian'', ''Latin'', ''Ancient Greek'', ''Mandarin Chinese'', ''Japanese'',
      ''Korean'', ''Vietnamese'', ''Hindi'', ''Thai'', ''Indonesian'']"

definition INITIAL_WORD :: string where
  "INITIAL_WORD = ''etymon''"

definition INITIAL_LANG :: string where
  "INITIAL_LANG = ''English''"

section \<open>The component \<^verbatim>\<open>App\<close>\<close>

text \<open>The seven \<^verbatim>\<open>useState\<close> cells of the component.\<close>

datatype Tab = TimelineTab | GraphTab

record AppState =
  word :: string
  language :: string
  status :: LoadingState
  data :: "EtymologyData option"
  error :: "string option"
  selectedNode :: "GraphNode option"
  activeTab :: Tab

definition initialApp :: AppState where
  "initialApp =
     \<lparr> word = INITIAL_WORD, language = INITIAL_LANG, status = IDLE, data = None,
       error = None, selectedNode = None, activeTab = TimelineTab \<rparr>"

text \<open>
  The whole program state: the component, the module state of the service, the calls of
  \<^verbatim>\<open>handleSearch\<close> suspended at their \<^verbatim>\<open>await\<close> (oldest first), and whether the mount
  effect has run.
\<close>

record System =
  app :: AppState
  service :: "EtymologyData ServiceState"
  awaiting :: "EtymologyData fetch_begin list"
  mounted :: bool

definition initialSystem :: System where
  "initialSystem =
     \<lparr> app = initialApp, service = initialService, awaiting = [], mounted = False \<rparr>"

subsection \<open>\<^verbatim>\<open>handleSearch\<close>\<close>

text \<open>
  From the call to the \<^verbatim>\<open>await\<close>: the guard on the trimmed word, the three state
  updates, and the first step of \<^verbatim>\<open>fetchEtymology(word, language)\<close>. The call
  \<^verbatim>\<open>e.preventDefault()\<close> acts on the browser event only.
\<close>

definition handleSearch :: "System \<Rightarrow> System" where
  "handleSearch sys =
     (if trim (word (app sys)) = [] then sys
      else
        (case fetchEtymology_begin (word (app sys)) (language (app sys)) (service sys) of
           (b, sv) \<Rightarrow>
             sys\<lparr>app := (app sys)\<lparr>status := LOADING, error := None, selectedNode := None\<rparr>,
                 service := sv,
                 awaiting := awaiting sys @ [b]\<rparr>))"

text \<open>
  \<^verbatim>\<open>err.message || "Failed to fetch etymology. Please try again."\<close>: the message when it
  is a non-empty string, the default when it is missing or empty, and \<^term>\<open>None\<close> when
  reading \<^verbatim>\<open>err.message\<close> throws.
\<close>

definition errorMessage :: "js_error \<Rightarrow> string option" where
  "errorMessage err =
     (case message err of
        None \<Rightarrow> None
      | Some None \<Rightarrow> Some ''Failed to fetch etymology. Please try again.''
      | Some (Some m) \<Rightarrow>
          Some (if m = [] then ''Failed to fetch etymology. Please try again.'' else m))"

text \<open>
  From the \<^verbatim>\<open>await\<close> to the end, for the suspended call at position \<open>i\<close>: the second step
  of \<^verbatim>\<open>fetchEtymology\<close>, then the \<^verbatim>\<open>try\<close> branch or the \<^verbatim>\<open>catch\<close> branch. The
  \<^verbatim>\<open>catch\<close> branch runs \<^verbatim>\<open>console.error(err)\<close>, then evaluates the argument of
  \<^verbatim>\<open>setError\<close>; when that throws, neither \<^verbatim>\<open>setError\<close> nor \<^verbatim>\<open>setStatus\<close> runs and the
  call ends with the component state as it was.
\<close>

definition handleSearch_resume ::
  "(string \<Rightarrow> string + EtymologyData) \<Rightarrow> nat \<Rightarrow> api_outcome \<Rightarrow> System \<Rightarrow> System" where
  "handleSearch_resume JSON_parse i outcome sys =
     (case fetchEtymology_resume JSON_parse (awaiting sys ! i) outcome (service sys) of
        (Inr result, sv) \<Rightarrow>
          sys\<lparr>app := (app sys)\<lparr>data := Some result, status := SUCCESS\<rparr>,
              service := sv,
              awaiting := take i (awaiting sys) @ drop (Suc i) (awaiting sys)\<rparr>
      | (Inl err, sv) \<Rightarrow>
          (case errorMessage err of
             None \<Rightarrow>
               sys\<lparr>service := sv\<lparr>console := console sv @ [AppError err]\<rparr>,
                   awaiting := take i (awaiting sys) @ drop (Suc i) (awaiting sys)\<rparr>
           | Some m \<Rightarrow>
               sys\<lparr>app := (app sys)\<lparr>error := Some m, status := ERROR\<rparr>,
                   service := sv\<lparr>console := console sv @ [AppError err]\<rparr>,
                   awaiting := take i (awaiting sys) @ drop (Suc i) (awaiting sys)\<rparr>))"

subsection \<open>The other handlers\<close>

definition handleNodeClick :: "GraphNode \<Rightarrow> AppState \<Rightarrow> AppState" where
  "handleNodeClick node s = s\<lparr>selectedNode := Some node\<rparr>"

definition handleTimelineStepClick :: "TimelineStep \<Rightarrow> AppState \<Rightarrow> AppState" where
  "handleTimelineStepClick step s =
     (case data s of
        None \<Rightarrow> s
      | Some d \<Rightarrow>
          (case find (\<lambda>n. node_label n = step_word step \<and> node_language n = step_language step)
                  (nodes (graph d)) of
             None \<Rightarrow> s
           | Some node \<Rightarrow> s\<lparr>selectedNode := Some node, activeTab := GraphTab\<rparr>))"

text \<open>The close button of the node-detail overlay: \<^verbatim>\<open>onClick={() => setSelectedNode(null)}\<close>.\<close>

definition closeOverlay :: "AppState \<Rightarrow> AppState" where
  "closeOverlay s = s\<lparr>selectedNode := None\<rparr>"

subsection \<open>Events\<close>

text \<open>
  What can happen to the mounted component, each with the condition under which the
  rendered page offers it:
  \<^item> the mount effect \<^verbatim>\<open>useEffect(() => { handleSearch(); }, [])\<close>, once, before anything else;
  \<^item> typing in the input, and choosing one of \<^verbatim>\<open>COMMON_LANGUAGES\<close> in the select;
  \<^item> submitting the form, whose submit button is \<^verbatim>\<open>disabled={status === LoadingState.LOADING}\<close>;
  \<^item> the Retry button, rendered when \<^verbatim>\<open>status === LoadingState.ERROR\<close>;
  \<^item> the settlement of a suspended \<^verbatim>\<open>handleSearch\<close>;
  \<^item> a click on a graph node or on a timeline step, both rendered from \<^verbatim>\<open>data\<close>;
  \<^item> the close button of the overlay, rendered when a node is selected;
  \<^item> the two buttons of the tab bar.

  The style \<^verbatim>\<open>pointer-events-none\<close> of the panes while loading is not modelled, so the
  clicks are offered in more states than the page offers them.
\<close>

datatype Event =
  Mount
| ChangeWord string
| ChangeLanguage string
| SubmitForm
| Retry
| Settled nat api_outcome
| NodeClick GraphNode
| TimelineStepClick TimelineStep
| CloseOverlay
| SelectTab Tab

fun enabled :: "Event \<Rightarrow> System \<Rightarrow> bool" where
  "enabled Mount sys = (\<not> mounted sys)"
| "enabled (ChangeWord w) sys = mounted sys"
| "enabled (ChangeLanguage l) sys = (mounted sys \<and> l \<in> set COMMON_LANGUAGES)"
| "enabled SubmitForm sys = (mounted sys \<and> status (app sys) \<noteq> LOADING)"
| "enabled Retry sys = (mounted sys \<and> status (app sys) = ERROR)"
| "enabled (Settled i outcome) sys = (i < length (awaiting sys))"
| "enabled (NodeClick node) sys =
     (mounted sys \<and> (case data (app sys) of None \<Rightarrow> False | Some d \<Rightarrow> node \<in> set (nodes (graph d))))"
| "enabled (TimelineStepClick step) sys =
     (mounted sys \<and> (case data (app sys) of None \<Rightarrow> False | Some d \<Rightarrow> step \<in> set (timeline d)))"
| "enabled CloseOverlay sys = (mounted sys \<and> selectedNode (app sys) \<noteq> None)"
| "enabled (SelectTab t) sys = mounted sys"

fun handle :: "(string \<Rightarrow> string + EtymologyData) \<Rightarrow> Event \<Rightarrow> System \<Rightarrow> System" where
  "handle JSON_parse Mount sys = handleSearch (sys\<lparr>mounted := True\<rparr>)"
| "handle JSON_parse (ChangeWord w) sys = sys\<lparr>app := (app sys)\<lparr>word := w\<rparr>\<rparr>"
| "handle JSON_parse (ChangeLanguage l) sys = sys\<lparr>app := (app sys)\<lparr>language := l\<rparr>\<rparr>"
| "handle JSON_parse SubmitForm sys = handleSearch sys"
| "handle JSON_parse Retry sys = handleSearch sys"
| "handle JSON_parse (Settled i outcome) sys = handleSearch_resume JSON_parse i outcome sys"
| "handle JSON_parse (NodeClick node) sys = sys\<lparr>app := handleNodeClick node (app sys)\<rparr>"
| "handle JSON_parse (TimelineStepClick step) sys =
     sys\<lparr>app := handleTimelineStepClick step (app sys)\<rparr>"
| "handle JSON_parse CloseOverlay sys = sys\<lparr>app := closeOverlay (app sys)\<rparr>"
| "handle JSON_parse (SelectTab t) sys = sys\<lparr>app := (app sys)\<lparr>activeTab := t\<rparr>\<rparr>"

definition step :: "(string \<Rightarrow> string + EtymologyData) \<Rightarrow> Event \<Rightarrow> System \<Rightarrow> System option" where
  "step JSON_parse ev sys = (if enabled ev sys then Some (handle JSON_parse ev sys) else None)"

fun run :: "(string \<Rightarrow> string + EtymologyData) \<Rightarrow> Event list \<Rightarrow> System \<Rightarrow> System option" where
  "run JSON_parse [] sys = Some sys"
| "run JSON_parse (ev # evs) sys =
     (case step JSON_parse ev sys of
        None \<Rightarrow> None
      | Some sys' \<Rightarrow> run JSON_parse evs sys')"

text \<open>
  At most one call of \<^verbatim>\<open>handleSearch\<close> is suspended, and none unless the status is
  \<^verbatim>\<open>LOADING\<close>.
\<close>

definition oneSearchInFlight :: "System \<Rightarrow> bool" where
  "oneSearchInFlight sys =
     (if status (app sys) = LOADING then length (awaiting sys) \<le> 1 \<and> mounted sys
      else awaiting sys = [])"

text \<open>The edges of the status machine.\<close>

definition transition :: "LoadingState \<Rightarrow> LoadingState \<Rightarrow> bool" where
  "transition a b =
     ((a = IDLE \<and> b = LOADING) \<or> (a = LOADING \<and> b = SUCCESS) \<or> (a = LOADING \<and> b = ERROR)
      \<or> (a = SUCCESS \<and> b = LOADING) \<or> (a = ERROR \<and> b = LOADING))"

section \<open>Example data\<close>

text \<open>
  The data of the specification's scenario: two nodes \<open>a\<close> (root) and \<open>b\<close> (current)
  linked from \<open>a\<close> to \<open>b\<close>, and a timeline with one step for each.
\<close>

definition exampleNode :: "string \<Rightarrow> string \<Rightarrow> string \<Rightarrow> GraphNodeType \<Rightarrow> GraphNode" where
  "exampleNode ident lab lang kind =
     \<lparr> node_id = ident, node_label = lab, node_transliteration = None, node_language = lang,
       node_definition = Some ''gloss'', node_era = Some ''era'', node_type = kind,
       node_val = None \<rparr>"

definition exampleStep :: "GraphNode \<Rightarrow> TimelineStepType \<Rightarrow> TimelineStep" where
  "exampleStep node kind =
     \<lparr> step_era = ''era'', step_year_approx = None, step_language = node_language node,
       step_word = node_label node, step_transliteration = None, step_meaning = ''gloss'',
       step_type = kind, step_description = None \<rparr>"

definition exampleData :: "GraphNode \<Rightarrow> GraphNode \<Rightarrow> EtymologyData" where
  "exampleData a b =
     \<lparr> data_word = node_label b, data_language = node_language b, data_summary = ''summary'',
       timeline = [exampleStep a StepRoot, exampleStep b StepCurrent],
       graph = \<lparr> nodes = [a, b],
                 links = [\<lparr> link_source = node_id a, link_target = node_id b,
                            link_type = LinkDerived \<rparr>] \<rparr> \<rparr>"

definition nodeA :: GraphNode where
  "nodeA = exampleNode ''a'' ''etumon'' ''Ancient Greek'' NodeRoot"

definition nodeB :: GraphNode where
  "nodeB = exampleNode ''b'' ''etymon'' ''English'' NodeCurrent"

text \<open>A coined word, which is its own root: both nodes carry the same label and language.\<close>

definition quarkA :: GraphNode where
  "quarkA = exampleNode ''a'' ''quark'' ''English'' NodeRoot"

definition quarkB :: GraphNode where
  "quarkB = exampleNode ''b'' ''quark'' ''English'' NodeCurrent"

text \<open>
  A stand-in for \<^verbatim>\<open>JSON.parse\<close> that knows two documents, named by their texts, and rejects
  every other text.
\<close>

definition exampleParse :: "string \<Rightarrow> string + EtymologyData" where
  "exampleParse text =
     (if text = ''{etymon}'' then Inr (exampleData nodeA nodeB)
      else if text = ''{quark}'' then Inr (exampleData quarkA quarkB)
      else Inl ''Unexpected token'')"

section \<open>Properties of the normalization\<close>

lemma trim_surrounding_whitespace:
  assumes p: "\<forall>c\<in>set p. isWhiteSpace c" and q: "\<forall>c\<in>set q. isWhiteSpace c"
  shows "trim (p @ s @ q) = trim s"
proof -
  have front: "dropWhile isWhiteSpace (p @ s @ q) = dropWhile isWhiteSpace (s @ q)"
    by (rule dropWhile_append2) (use p in simp)
  show ?thesis
  proof (cases "\<forall>c\<in>set s. isWhiteSpace c")
    case True
    with q have a: "dropWhile isWhiteSpace (s @ q) = []" and b: "dropWhile isWhiteSpace s = []"
      by (auto simp: dropWhile_eq_Nil_conv)
    show ?thesis
      unfolding trim_def front a b by simp
  next
    case False
    then have a: "dropWhile isWhiteSpace (s @ q) = dropWhile isWhiteSpace s @ q"
      by (auto simp: dropWhile_append1)
    have "dropWhile isWhiteSpace (rev q @ rev (dropWhile isWhiteSpace s))
        = dropWhile isWhiteSpace (rev (dropWhile isWhiteSpace s))"
      by (rule dropWhile_append2) (use q in simp)
    then show ?thesis
      unfolding trim_def front a by simp
  qed
qed

lemma isWhiteSpace_toLowerChar: "isWhiteSpace (toLowerChar c) = isWhiteSpace c"
  by (auto simp: isWhiteSpace_def toLowerChar_def Let_def)

lemma dropWhile_toLowerCase:
  "dropWhile isWhiteSpace (toLowerCase s) = toLowerCase (dropWhile isWhiteSpace s)"
  by (induction s) (simp_all add: toLowerCase_def isWhiteSpace_toLowerChar)

lemma trim_toLowerCase: "trim (toLowerCase s) = toLowerCase (trim s)"
proof -
  have r: "rev (toLowerCase t) = toLowerCase (rev t)" for t
    by (simp add: toLowerCase_def rev_map)
  show ?thesis
    by (simp add: trim_def dropWhile_toLowerCase r)
qed

lemma cacheKey_ignores_case_and_padding:
  assumes "\<forall>c\<in>set p. isWhiteSpace c" and "\<forall>c\<in>set q. isWhiteSpace c"
    and "\<forall>c\<in>set p'. isWhiteSpace c" and "\<forall>c\<in>set q'. isWhiteSpace c"
    and "toLowerCase w1 = toLowerCase w2" and "toLowerCase lang1 = toLowerCase lang2"
  shows "cacheKey (p @ w1 @ q) (p' @ lang1 @ q') = cacheKey w2 lang2"
proof -
  have "toLowerCase (trim w1) = toLowerCase (trim w2)"
    using assms(5) by (metis trim_toLowerCase)
  moreover have "toLowerCase (trim lang1) = toLowerCase (trim lang2)"
    using assms(6) by (metis trim_toLowerCase)
  ultimately show ?thesis
    using assms(1-4) by (simp add: cacheKey_def trim_surrounding_whitespace)
qed

section \<open>Properties of the service\<close>

lemma fetchEtymology_hit:
  "searchCache st (cacheKey w lang) = Some d \<Longrightarrow>
   fetchEtymology JSON_parse outcome w lang st = (Inr d, st)"
  by (simp add: fetchEtymology_def fetchEtymology_begin_def fetchEtymology_resume_def)

lemma fetchEtymology_miss:
  "searchCache st (cacheKey w lang) = None \<Longrightarrow>
   fetchEtymology JSON_parse outcome w lang st =
     fetchEtymology_settle JSON_parse (cacheKey w lang) outcome
       (st\<lparr>requests := requests st @
          [(cacheKey w lang, generateContentParameters w lang)]\<rparr>)"
  by (simp add: fetchEtymology_def fetchEtymology_begin_def fetchEtymology_resume_def Let_def)

lemma fetchEtymology_settle_Inr:
  "fetchEtymology_settle JSON_parse key outcome st = (Inr d, st') \<Longrightarrow>
   parseResponse JSON_parse outcome = Inr d \<and> st' = st\<lparr>searchCache := (searchCache st)(key \<mapsto> d)\<rparr>"
  by (auto simp: fetchEtymology_settle_def split: sum.splits)

lemma fetchEtymology_settle_Inl:
  "fetchEtymology_settle JSON_parse key outcome st = (Inl err, st') \<Longrightarrow>
   parseResponse JSON_parse outcome = Inl err \<and> st' = st\<lparr>console := console st @ [GeminiApiError err]\<rparr>"
  by (auto simp: fetchEtymology_settle_def split: sum.splits)

lemma fetchEtymology_stores:
  assumes "fetchEtymology JSON_parse outcome w lang st = (Inr d, st')"
  shows "searchCache st' (cacheKey w lang) = Some d"
proof (cases "searchCache st (cacheKey w lang)")
  case None
  with assms show ?thesis
    by (auto simp: fetchEtymology_miss dest!: fetchEtymology_settle_Inr)
next
  case (Some d')
  with assms show ?thesis
    by (simp add: fetchEtymology_hit)
qed

text \<open>
  Claim C3. Two argument pairs whose words agree after trimming and lower-casing, and
  whose languages agree after trimming and lower-casing, have the same cache key, read the
  same cache entry, and take the same branch of the cache lookup; after a successful call
  with one pair, a call with the other returns the same data and changes nothing.
\<close>

theorem cacheKey_normalization:
  assumes "toLowerCase (trim w1) = toLowerCase (trim w2)"
    and "toLowerCase (trim lang1) = toLowerCase (trim lang2)"
  shows "cacheKey w1 lang1 = cacheKey w2 lang2
       \<and> searchCache st (cacheKey w1 lang1) = searchCache st (cacheKey w2 lang2)
       \<and> fst (fetchEtymology_begin w1 lang1 st) = fst (fetchEtymology_begin w2 lang2 st)
       \<and> (fetchEtymology JSON_parse outcome w1 lang1 st = (Inr d, st')
            \<longrightarrow> fetchEtymology JSON_parse outcome' w2 lang2 st' = (Inr d, st'))"
proof -
  have key: "cacheKey w1 lang1 = cacheKey w2 lang2"
    using assms by (simp add: cacheKey_def)
  have "fst (fetchEtymology_begin w1 lang1 st) = fst (fetchEtymology_begin w2 lang2 st)"
    by (simp add: fetchEtymology_begin_def Let_def key split: option.splits)
  moreover have "fetchEtymology JSON_parse outcome' w2 lang2 st' = (Inr d, st')"
    if "fetchEtymology JSON_parse outcome w1 lang1 st = (Inr d, st')"
    using fetchEtymology_stores [OF that] by (simp add: key fetchEtymology_hit)
  ultimately show ?thesis
    using key by simp
qed

text \<open>
  Witness for C3: \<open>("Etymon", " English ")\<close> and \<open>("etymon", "english")\<close> have the key
  \<open>"etymon-english"\<close>.
\<close>

theorem cacheKey_normalization_witness:
  "toLowerCase (trim ''Etymon'') = toLowerCase (trim ''etymon'')
   \<and> toLowerCase (trim '' English '') = toLowerCase (trim ''english'')
   \<and> cacheKey ''Etymon'' '' English '' = ''etymon-english''
   \<and> cacheKey ''etymon'' ''english'' = ''etymon-english''
   \<and> cacheKey ''Etymon'' '' English '' = cacheKey ''etymon'' ''english''"
proof -
  have w: "toLowerCase (trim ''Etymon'') = toLowerCase (trim ''etymon'')"
    by code_simp
  have l: "toLowerCase (trim '' English '') = toLowerCase (trim ''english'')"
    by code_simp
  have k1: "cacheKey ''Etymon'' '' English '' = ''etymon-english''"
    by code_simp
  have k2: "cacheKey ''etymon'' ''english'' = ''etymon-english''"
    by code_simp
  have "cacheKey ''Etymon'' '' English '' = cacheKey ''etymon'' ''english''"
    by (rule cacheKey_normalization [OF w l, THEN conjunct1])
  with w l k1 k2 show ?thesis by simp
qed


lemma fetchEtymology_begin_hit:
  "searchCache st (cacheKey w lang) = Some d \<Longrightarrow> fetchEtymology_begin w lang st = (Hit d, st)"
  by (simp add: fetchEtymology_begin_def)

lemma service_step_cache_dom:
  "key \<in> dom (searchCache st) \<Longrightarrow> key \<in> dom (searchCache (service_step JSON_parse ev st))"
  by (cases ev)
     (auto simp: fetchEtymology_begin_def fetchEtymology_settle_def Let_def
           split: option.splits sum.splits)

lemma service_step_requestsFor:
  "key \<in> dom (searchCache st) \<Longrightarrow> requestsFor key (service_step JSON_parse ev st) = requestsFor key st"
  by (cases ev)
     (auto simp: fetchEtymology_begin_def fetchEtymology_settle_def Let_def requestsFor_def
           split: option.splits sum.splits)

lemma service_run_cached:
  "key \<in> dom (searchCache st) \<Longrightarrow>
   key \<in> dom (searchCache (service_run JSON_parse evs st))
   \<and> requestsFor key (service_run JSON_parse evs st) = requestsFor key st"
proof (induction evs arbitrary: st)
  case Nil
  then show ?case by simp
next
  case (Cons ev evs)
  from Cons.prems have "key \<in> dom (searchCache (service_step JSON_parse ev st))"
    by (rule service_step_cache_dom)
  from Cons.IH [OF this] show ?case
    using service_step_requestsFor [OF Cons.prems] by simp
qed

text \<open>
  Claim C1, as amended. Once a result is stored under a normalized key, then after any
  number of further calls and settlements, in any order, no further request has been
  issued for that key, the key is still stored, and every call whose arguments normalize to
  the key returns the value stored under it at that time and leaves the module state, with
  its list of requests, as it is. Requests issued while nothing is stored for the key
  (after a failure, or by overlapping calls) are not bounded.
\<close>

theorem stored_key_not_requested_again:
  assumes "searchCache st key = Some d"
    and "st' = service_run JSON_parse evs st"
  shows "requestsFor key st' = requestsFor key st
       \<and> searchCache st' key \<noteq> None
       \<and> (cacheKey w lang = key \<longrightarrow>
            fetchEtymology JSON_parse outcome w lang st' = (Inr (the (searchCache st' key)), st'))"
proof -
  from assms(1) have "key \<in> dom (searchCache st)"
    by blast
  from service_run_cached [OF this, of JSON_parse evs] assms(2)
  have r: "requestsFor key st' = requestsFor key st" and c: "key \<in> dom (searchCache st')"
    by simp_all
  from c obtain d' where d': "searchCache st' key = Some d'"
    by blast
  then have "fetchEtymology JSON_parse outcome w lang st' = (Inr (the (searchCache st' key)), st')"
    if "cacheKey w lang = key"
    using that by (simp add: fetchEtymology_hit)
  with r d' show ?thesis
    by simp
qed

text \<open>
  Claim C2. A call that fails leaves the cache as it was, and the error it throws is the
  failure of the request or of the parsing of its response; a following call with the same
  word and language misses the cache again and issues a new request, and its result is
  that of the new request, not the earlier failure.
\<close>

theorem failed_fetch_not_cached:
  assumes "fetchEtymology JSON_parse outcome w lang st = (Inl err, st')"
  shows "searchCache st' = searchCache st
       \<and> parseResponse JSON_parse outcome = Inl err
       \<and> fetchEtymology_begin w lang st' =
           (Miss (cacheKey w lang),
            st'\<lparr>requests := requests st' @ [(cacheKey w lang, generateContentParameters w lang)]\<rparr>)
       \<and> fst (fetchEtymology JSON_parse outcome' w lang st') = parseResponse JSON_parse outcome'"
proof (cases "searchCache st (cacheKey w lang)")
  case (Some d)
  with assms show ?thesis
    by (simp add: fetchEtymology_hit)
next
  case None
  with assms have s: "fetchEtymology_settle JSON_parse (cacheKey w lang) outcome
       (st\<lparr>requests := requests st @ [(cacheKey w lang, generateContentParameters w lang)]\<rparr>)
     = (Inl err, st')"
    by (simp add: fetchEtymology_miss)
  from fetchEtymology_settle_Inl [OF s]
  have p: "parseResponse JSON_parse outcome = Inl err" and c: "searchCache st' = searchCache st"
    by simp_all
  from c None have miss: "searchCache st' (cacheKey w lang) = None"
    by simp
  then have b: "fetchEtymology_begin w lang st' =
           (Miss (cacheKey w lang),
            st'\<lparr>requests := requests st' @ [(cacheKey w lang, generateContentParameters w lang)]\<rparr>)"
    by (simp add: fetchEtymology_begin_def Let_def)
  have "fst (fetchEtymology JSON_parse outcome' w lang st') = parseResponse JSON_parse outcome'"
    by (simp add: fetchEtymology_miss [OF miss] fetchEtymology_settle_def split: sum.splits)
  with p c b show ?thesis
    by simp
qed

text \<open>
  Claim C4. On a cache miss the call fails exactly when the request is rejected, the
  response text is missing or empty, or \<^verbatim>\<open>JSON.parse\<close> rejects the text; a non-empty text
  that parses is returned as parsed; and the error of a failing call is the one raised
  inside: the rejection, the "No response" error, or the parser's error.
\<close>

theorem fetch_miss_error_iff:
  assumes "searchCache st (cacheKey w lang) = None"
  shows "(isl (fst (fetchEtymology JSON_parse outcome w lang st)) \<longleftrightarrow>
            (\<exists>m. outcome = Rejected m) \<or> outcome = Resolved None \<or> outcome = Resolved (Some [])
            \<or> (\<exists>text. outcome = Resolved (Some text) \<and> isl (JSON_parse text)))
       \<and> (outcome = Resolved (Some text) \<and> text \<noteq> [] \<and> JSON_parse text = Inr d \<longrightarrow>
            fst (fetchEtymology JSON_parse outcome w lang st) = Inr d)
       \<and> (fst (fetchEtymology JSON_parse outcome w lang st) = Inl err \<longrightarrow>
            err = (case outcome of
                     Rejected m \<Rightarrow> ApiError m
                   | Resolved None \<Rightarrow> NoResponse
                   | Resolved (Some t) \<Rightarrow>
                       if t = [] then NoResponse else SyntaxError (projl (JSON_parse t))))"
proof -
  have r: "fst (fetchEtymology JSON_parse outcome w lang st) = parseResponse JSON_parse outcome"
    by (simp add: fetchEtymology_miss [OF assms] fetchEtymology_settle_def split: sum.splits)
  show ?thesis
    unfolding r
    by (auto simp: parseResponse_def split: api_outcome.splits option.splits sum.splits if_splits)
qed


lemma cacheKey_etymon: "cacheKey ''etymon'' ''English'' = ''etymon-english''"
  by code_simp

text \<open>
  Counterexample for C1 as stated: two calls with the same arguments, each of whose
  requests is rejected, issue two requests for one normalized key.
\<close>

theorem one_request_per_key_counterexample:
  "\<not> requestsFor (cacheKey ''etymon'' ''English'')
       (snd (fetchEtymology exampleParse (Rejected (Value None)) ''etymon'' ''English''
          (snd (fetchEtymology exampleParse (Rejected (Value None)) ''etymon'' ''English''
             initialService)))) \<le> 1"
  by (simp add: cacheKey_etymon fetchEtymology_def fetchEtymology_begin_def
        fetchEtymology_resume_def fetchEtymology_settle_def parseResponse_def
        initialService_def requestsFor_def Let_def)

text \<open>
  Witness for C1: after a first successful call for \<open>("etymon", "English")\<close>, a later call
  and an unrelated failed settlement, one request has been issued for the key and the call
  \<open>("Etymon", " English ")\<close> returns the stored data.
\<close>

theorem stored_key_not_requested_again_witness:
  "searchCache (snd (fetchEtymology exampleParse (Resolved (Some ''{etymon}'')) ''etymon'' ''English''
        initialService)) ''etymon-english'' = Some (exampleData nodeA nodeB)
   \<and> requestsFor ''etymon-english''
        (service_run exampleParse [Call ''Etymon'' '' English '', Settle ''x-y'' (Rejected (Value None))]
          (snd (fetchEtymology exampleParse (Resolved (Some ''{etymon}'')) ''etymon'' ''English''
             initialService))) = 1
   \<and> fst (fetchEtymology exampleParse (Rejected (Value None)) ''Etymon'' '' English ''
        (service_run exampleParse [Call ''Etymon'' '' English '', Settle ''x-y'' (Rejected (Value None))]
          (snd (fetchEtymology exampleParse (Resolved (Some ''{etymon}'')) ''etymon'' ''English''
             initialService)))) = Inr (exampleData nodeA nodeB)"
proof -
  define st where "st = snd (fetchEtymology exampleParse (Resolved (Some ''{etymon}''))
    ''etymon'' ''English'' (initialService :: EtymologyData ServiceState))"
  define evs where "evs = [Call ''Etymon'' '' English '', Settle ''x-y'' (Rejected (Value None))]"
  have k: "cacheKey ''Etymon'' '' English '' = ''etymon-english''"
    by code_simp
  have st: "st = \<lparr> searchCache = [''etymon-english'' \<mapsto> exampleData nodeA nodeB],
                   requests = [(''etymon-english'', generateContentParameters ''etymon'' ''English'')],
                   console = [] \<rparr>"
    by (simp add: st_def cacheKey_etymon fetchEtymology_def fetchEtymology_begin_def
        fetchEtymology_resume_def fetchEtymology_settle_def parseResponse_def
        initialService_def exampleParse_def Let_def)
  then have c: "searchCache st ''etymon-english'' = Some (exampleData nodeA nodeB)"
    by simp
  have r: "requestsFor ''etymon-english'' st = 1"
    by (simp add: st requestsFor_def)
  have s: "searchCache (service_run exampleParse evs st) ''etymon-english''
             = Some (exampleData nodeA nodeB)"
    by (simp add: evs_def st k fetchEtymology_begin_def fetchEtymology_settle_def
          parseResponse_def Let_def)
  from stored_key_not_requested_again [OF c refl, of exampleParse evs "''Etymon''" "'' English ''" "Rejected (Value None)"]
  show ?thesis
    using c r s k unfolding st_def [symmetric] evs_def [symmetric] by simp
qed


lemma first_fetch_example:
  "fetchEtymology exampleParse (Resolved (Some ''{etymon}'')) w lang initialService =
     (Inr (exampleData nodeA nodeB),
      \<lparr> searchCache = [cacheKey w lang \<mapsto> exampleData nodeA nodeB],
        requests = [(cacheKey w lang, generateContentParameters w lang)],
        console = [] \<rparr>)"
  by (simp add: fetchEtymology_def fetchEtymology_begin_def
        fetchEtymology_resume_def fetchEtymology_settle_def parseResponse_def
        initialService_def exampleParse_def Let_def)

lemma failed_fetch_example:
  "fetchEtymology exampleParse (Resolved (Some ''not json'')) w lang initialService =
     (Inl (SyntaxError ''Unexpected token''),
      \<lparr> searchCache = Map.empty,
        requests = [(cacheKey w lang, generateContentParameters w lang)],
        console = [GeminiApiError (SyntaxError ''Unexpected token'')] \<rparr>)"
  by (simp add: fetchEtymology_def fetchEtymology_begin_def
        fetchEtymology_resume_def fetchEtymology_settle_def parseResponse_def
        initialService_def exampleParse_def Let_def)

text \<open>
  Witness for C2: a response that is not JSON fails the first call; the second call issues a
  request again and succeeds.
\<close>

theorem failed_fetch_not_cached_witness:
  "fetchEtymology exampleParse (Resolved (Some ''not json'')) ''etymon'' ''English'' initialService =
     (Inl (SyntaxError ''Unexpected token''),
      \<lparr> searchCache = Map.empty,
        requests = [(''etymon-english'', generateContentParameters ''etymon'' ''English'')],
        console = [GeminiApiError (SyntaxError ''Unexpected token'')] \<rparr>)
   \<and> fst (fetchEtymology exampleParse (Resolved (Some ''{etymon}'')) ''etymon'' ''English''
        \<lparr> searchCache = Map.empty,
          requests = [(''etymon-english'', generateContentParameters ''etymon'' ''English'')],
          console = [GeminiApiError (SyntaxError ''Unexpected token'')] \<rparr>)
       = Inr (exampleData nodeA nodeB)
   \<and> fetchEtymology_begin ''etymon'' ''English''
        (\<lparr> searchCache = Map.empty,
          requests = [(''etymon-english'', generateContentParameters ''etymon'' ''English'')],
          console = [GeminiApiError (SyntaxError ''Unexpected token'')] \<rparr>
            :: EtymologyData ServiceState)
       = (Miss ''etymon-english'',
          \<lparr> searchCache = Map.empty,
            requests = [(''etymon-english'', generateContentParameters ''etymon'' ''English''),
                        (''etymon-english'', generateContentParameters ''etymon'' ''English'')],
            console = [GeminiApiError (SyntaxError ''Unexpected token'')] \<rparr>)"
proof -
  have p: "parseResponse exampleParse (Resolved (Some ''{etymon}'')) = Inr (exampleData nodeA nodeB)"
    by (simp add: parseResponse_def exampleParse_def)
  have f: "fetchEtymology exampleParse (Resolved (Some ''not json'')) ''etymon'' ''English'' initialService =
     (Inl (SyntaxError ''Unexpected token''),
      \<lparr> searchCache = Map.empty,
        requests = [(''etymon-english'', generateContentParameters ''etymon'' ''English'')],
        console = [GeminiApiError (SyntaxError ''Unexpected token'')] \<rparr>)"
    by (simp add: failed_fetch_example cacheKey_etymon)
  from failed_fetch_not_cached [OF f, of "Resolved (Some ''{etymon}'')"] show ?thesis
    using f p by (simp add: cacheKey_etymon initialService_def)
qed

text \<open>
  Witness for C4: on the empty cache a text that parses is returned, and an empty text
  fails.
\<close>

theorem fetch_miss_error_iff_witness:
  "searchCache (initialService :: EtymologyData ServiceState) (cacheKey ''etymon'' ''English'') = None
   \<and> fst (fetchEtymology exampleParse (Resolved (Some ''{etymon}'')) ''etymon'' ''English''
          initialService) = Inr (exampleData nodeA nodeB)
   \<and> isl (fst (fetchEtymology exampleParse (Resolved (Some [])) ''etymon'' ''English''
          (initialService :: EtymologyData ServiceState)))"
proof -
  have m: "searchCache (initialService :: EtymologyData ServiceState) (cacheKey ''etymon'' ''English'') = None"
    by (simp add: initialService_def)
  have e: "exampleParse ''{etymon}'' = Inr (exampleData nodeA nodeB)"
    by (simp add: exampleParse_def)
  from fetch_miss_error_iff [OF m, of exampleParse "Resolved (Some ''{etymon}'')" "''{etymon}''"
      "exampleData nodeA nodeB"]
    fetch_miss_error_iff [OF m, of exampleParse "Resolved (Some [])"]
  show ?thesis
    using m e by simp
qed

text \<open>
  Claim C8. The queries \<open>("a-b", "c")\<close> and \<open>("a", "b-c")\<close> differ after normalization
  and both have the cache key \<open>"a-b-c"\<close>; so after a successful call with the first, a call
  with the second returns the first call's data and changes nothing, issuing no request.
\<close>

theorem cacheKey_collision:
  "cacheKey ''a-b'' ''c'' = ''a-b-c''
   \<and> cacheKey ''a'' ''b-c'' = ''a-b-c''
   \<and> (toLowerCase (trim ''a-b''), toLowerCase (trim ''c''))
       \<noteq> (toLowerCase (trim ''a''), toLowerCase (trim ''b-c''))
   \<and> (fetchEtymology JSON_parse outcome ''a-b'' ''c'' st = (Inr d, st') \<longrightarrow>
        fetchEtymology JSON_parse outcome' ''a'' ''b-c'' st' = (Inr d, st'))"
proof -
  have k1: "cacheKey ''a-b'' ''c'' = ''a-b-c''"
    by code_simp
  have k2: "cacheKey ''a'' ''b-c'' = ''a-b-c''"
    by code_simp
  have n: "(toLowerCase (trim ''a-b''), toLowerCase (trim ''c''))
       \<noteq> (toLowerCase (trim ''a''), toLowerCase (trim ''b-c''))"
    by code_simp
  have "fetchEtymology JSON_parse outcome' ''a'' ''b-c'' st' = (Inr d, st')"
    if "fetchEtymology JSON_parse outcome ''a-b'' ''c'' st = (Inr d, st')"
    using fetchEtymology_stores [OF that] by (simp add: k1 k2 fetchEtymology_hit)
  with k1 k2 n show ?thesis
    by blast
qed

text \<open>
  Witness for C8: on the empty cache the first call stores its result under \<open>"a-b-c"\<close>,
  and the second call returns that result although its own request would have produced
  other data.
\<close>

theorem cacheKey_collision_witness:
  "fetchEtymology exampleParse (Resolved (Some ''{etymon}'')) ''a-b'' ''c'' initialService =
     (Inr (exampleData nodeA nodeB),
      \<lparr> searchCache = [''a-b-c'' \<mapsto> exampleData nodeA nodeB],
        requests = [(''a-b-c'', generateContentParameters ''a-b'' ''c'')],
        console = [] \<rparr>)
   \<and> fetchEtymology exampleParse (Resolved (Some ''{quark}'')) ''a'' ''b-c''
        \<lparr> searchCache = [''a-b-c'' \<mapsto> exampleData nodeA nodeB],
          requests = [(''a-b-c'', generateContentParameters ''a-b'' ''c'')],
          console = [] \<rparr> =
     (Inr (exampleData nodeA nodeB),
      \<lparr> searchCache = [''a-b-c'' \<mapsto> exampleData nodeA nodeB],
        requests = [(''a-b-c'', generateContentParameters ''a-b'' ''c'')],
        console = [] \<rparr>)"
proof -
  have k: "cacheKey ''a-b'' ''c'' = ''a-b-c''"
    by code_simp
  have f: "fetchEtymology exampleParse (Resolved (Some ''{etymon}'')) ''a-b'' ''c'' initialService =
     (Inr (exampleData nodeA nodeB),
      \<lparr> searchCache = [''a-b-c'' \<mapsto> exampleData nodeA nodeB],
        requests = [(''a-b-c'', generateContentParameters ''a-b'' ''c'')],
        console = [] \<rparr>)"
    by (simp add: first_fetch_example k)
  from cacheKey_collision [of exampleParse "Resolved (Some ''{etymon}'')" initialService
      "exampleData nodeA nodeB" _ "Resolved (Some ''{quark}'')"] f
  show ?thesis
    by simp
qed

section \<open>Properties of the component\<close>

lemma trim_empty_iff: "trim s = [] \<longleftrightarrow> (\<forall>c\<in>set s. isWhiteSpace c)"
proof
  assume "trim s = []"
  then have all: "\<forall>c\<in>set (dropWhile isWhiteSpace s). isWhiteSpace c"
    by (simp add: trim_def dropWhile_eq_Nil_conv)
  have "dropWhile isWhiteSpace s = []"
  proof (rule ccontr)
    assume ne: "dropWhile isWhiteSpace s \<noteq> []"
    then have "\<not> isWhiteSpace (hd (dropWhile isWhiteSpace s))"
      by (rule hd_dropWhile)
    moreover from ne have "hd (dropWhile isWhiteSpace s) \<in> set (dropWhile isWhiteSpace s)"
      by (rule hd_in_set)
    ultimately show False
      using all by blast
  qed
  then show "\<forall>c\<in>set s. isWhiteSpace c"
    by (simp add: dropWhile_eq_Nil_conv)
next
  assume "\<forall>c\<in>set s. isWhiteSpace c"
  then have d: "dropWhile isWhiteSpace s = []"
    by (simp add: dropWhile_eq_Nil_conv)
  show "trim s = []"
    unfolding trim_def d by simp
qed

lemma handleSearch_blank: "trim (word (app sys)) = [] \<Longrightarrow> handleSearch sys = sys"
  by (simp add: handleSearch_def)

lemma handleSearch_nonblank:
  "trim (word (app sys)) \<noteq> [] \<Longrightarrow>
   handleSearch sys =
     sys\<lparr>app := (app sys)\<lparr>status := LOADING, error := None, selectedNode := None\<rparr>,
         service := snd (fetchEtymology_begin (word (app sys)) (language (app sys)) (service sys)),
         awaiting := awaiting sys @
           [fst (fetchEtymology_begin (word (app sys)) (language (app sys)) (service sys))]\<rparr>"
  by (simp add: handleSearch_def split: prod.splits)

text \<open>
  Claim C6. When the word consists of white space only (or is empty), its trimmed form is
  empty and \<^verbatim>\<open>handleSearch\<close> changes nothing; so the mount effect, a form submission and
  a retry leave the component state (status, data, error, selection), the module state of
  the service with its list of requests, and the suspended calls as they are.
\<close>

theorem blank_submission_no_op:
  assumes "\<forall>c\<in>set (word (app sys)). isWhiteSpace c"
    and "ev = Mount \<or> ev = SubmitForm \<or> ev = Retry"
  shows "trim (word (app sys)) = []
       \<and> handleSearch sys = sys
       \<and> app (handle JSON_parse ev sys) = app sys
       \<and> service (handle JSON_parse ev sys) = service sys
       \<and> awaiting (handle JSON_parse ev sys) = awaiting sys"
proof -
  from assms(1) have t: "trim (word (app sys)) = []"
    by (simp add: trim_empty_iff)
  then have "handleSearch sys = sys"
    by (rule handleSearch_blank)
  moreover have "handleSearch (sys\<lparr>mounted := True\<rparr>) = sys\<lparr>mounted := True\<rparr>"
    using t by (simp add: handleSearch_def)
  ultimately show ?thesis
    using t assms(2) by auto
qed

text \<open>
  Witness for C6: submitting the form with a word of two spaces returns the same state.
\<close>

theorem blank_submission_no_op_witness:
  "trim ''  '' = []
   \<and> handle exampleParse SubmitForm (initialSystem\<lparr>app := initialApp\<lparr>word := ''  ''\<rparr>, mounted := True\<rparr>)
       = initialSystem\<lparr>app := initialApp\<lparr>word := ''  ''\<rparr>, mounted := True\<rparr>"
proof -
  have w: "\<forall>c\<in>set (word (app (initialSystem\<lparr>app := initialApp\<lparr>word := ''  ''\<rparr>, mounted := True\<rparr>))). isWhiteSpace c"
    by (simp add: isWhiteSpace_def)
  from blank_submission_no_op [OF w, of SubmitForm exampleParse]
  show ?thesis
    by simp
qed

text \<open>
  Claim C9. In a state with a selected node, the close button of the overlay is offered
  (once mounted), and it sets the selected node to null and leaves the status, the data,
  the error, the word, the language, the active tab, the module state of the service and
  the suspended calls unchanged.
\<close>

theorem close_overlay_clears_selection_only:
  assumes "selectedNode (app sys) = Some node"
  shows "enabled CloseOverlay sys = mounted sys
       \<and> selectedNode (app (handle JSON_parse CloseOverlay sys)) = None
       \<and> status (app (handle JSON_parse CloseOverlay sys)) = status (app sys)
       \<and> data (app (handle JSON_parse CloseOverlay sys)) = data (app sys)
       \<and> error (app (handle JSON_parse CloseOverlay sys)) = error (app sys)
       \<and> word (app (handle JSON_parse CloseOverlay sys)) = word (app sys)
       \<and> language (app (handle JSON_parse CloseOverlay sys)) = language (app sys)
       \<and> activeTab (app (handle JSON_parse CloseOverlay sys)) = activeTab (app sys)
       \<and> service (handle JSON_parse CloseOverlay sys) = service sys
       \<and> awaiting (handle JSON_parse CloseOverlay sys) = awaiting sys
       \<and> closeOverlay (app sys) = (app sys)\<lparr>selectedNode := None\<rparr>"
  using assms by (simp add: closeOverlay_def)

text \<open>
  Witness for C9: closing the overlay on node \<open>b\<close> of the example data.
\<close>

theorem close_overlay_clears_selection_only_witness:
  "selectedNode (initialApp\<lparr>status := SUCCESS, data := Some (exampleData nodeA nodeB),
       selectedNode := Some nodeB, activeTab := GraphTab\<rparr>) = Some nodeB
   \<and> closeOverlay (initialApp\<lparr>status := SUCCESS, data := Some (exampleData nodeA nodeB),
       selectedNode := Some nodeB, activeTab := GraphTab\<rparr>)
     = initialApp\<lparr>status := SUCCESS, data := Some (exampleData nodeA nodeB), activeTab := GraphTab\<rparr>"
proof -
  define sys where "sys = initialSystem\<lparr>app := initialApp\<lparr>status := SUCCESS,
       data := Some (exampleData nodeA nodeB), selectedNode := Some nodeB, activeTab := GraphTab\<rparr>,
       mounted := True\<rparr>"
  have s: "selectedNode (app sys) = Some nodeB"
    by (simp add: sys_def)
  from close_overlay_clears_selection_only [OF s, of exampleParse] show ?thesis
    by (simp add: sys_def initialApp_def)
qed


lemma handleTimelineStepClick_found:
  "data s = Some d \<Longrightarrow>
   find (\<lambda>n. node_label n = step_word clicked \<and> node_language n = step_language clicked)
     (nodes (graph d)) = Some node \<Longrightarrow>
   handleTimelineStepClick clicked s = s\<lparr>selectedNode := Some node, activeTab := GraphTab\<rparr>"
  by (simp add: handleTimelineStepClick_def)

lemma handleTimelineStepClick_not_found:
  "data s = Some d \<Longrightarrow>
   find (\<lambda>n. node_label n = step_word clicked \<and> node_language n = step_language clicked)
     (nodes (graph d)) = None \<Longrightarrow>
   handleTimelineStepClick clicked s = s"
  by (simp add: handleTimelineStepClick_def)

text \<open>
  Claim C5, as amended. With data loaded, a click on a timeline step selects the first
  node of the graph, in array order, whose label is the step's word and whose language is
  the step's language, and switches the active tab to the graph; if no node matches, the
  state is unchanged. With the nodes \<open>[a, b]\<close>, a click on the step that carries the label
  and language of \<open>b\<close> selects \<open>b\<close>, provided \<open>a\<close> does not carry the same label and
  language.
\<close>

theorem timeline_step_click_selects_first_match:
  assumes "data s = Some d"
  shows "((\<exists>n\<in>set (nodes (graph d)).
             node_label n = step_word clicked \<and> node_language n = step_language clicked) \<longrightarrow>
          (\<exists>i<length (nodes (graph d)).
             node_label (nodes (graph d) ! i) = step_word clicked
             \<and> node_language (nodes (graph d) ! i) = step_language clicked
             \<and> (\<forall>j<i. \<not> (node_label (nodes (graph d) ! j) = step_word clicked
                          \<and> node_language (nodes (graph d) ! j) = step_language clicked))
             \<and> handleTimelineStepClick clicked s =
                 s\<lparr>selectedNode := Some (nodes (graph d) ! i), activeTab := GraphTab\<rparr>))
       \<and> ((\<forall>n\<in>set (nodes (graph d)).
              \<not> (node_label n = step_word clicked \<and> node_language n = step_language clicked)) \<longrightarrow>
            handleTimelineStepClick clicked s = s)
       \<and> (nodes (graph d) = [a, b]
            \<and> step_word clicked = node_label b \<and> step_language clicked = node_language b
            \<and> \<not> (node_label a = node_label b \<and> node_language a = node_language b) \<longrightarrow>
            handleTimelineStepClick clicked s = s\<lparr>selectedNode := Some b, activeTab := GraphTab\<rparr>)"
proof (intro conjI impI)
  let ?P = "\<lambda>n. node_label n = step_word clicked \<and> node_language n = step_language clicked"
  assume "\<exists>n\<in>set (nodes (graph d)). ?P n"
  then have "find ?P (nodes (graph d)) \<noteq> None"
    by (auto simp: find_None_iff)
  then obtain node where f: "find ?P (nodes (graph d)) = Some node"
    by blast
  then obtain i where i: "i < length (nodes (graph d))" "?P (nodes (graph d) ! i)"
      "node = nodes (graph d) ! i" "\<forall>j<i. \<not> ?P (nodes (graph d) ! j)"
    unfolding find_Some_iff by blast
  from handleTimelineStepClick_found [OF assms f] i
  show "\<exists>i<length (nodes (graph d)).
             node_label (nodes (graph d) ! i) = step_word clicked
             \<and> node_language (nodes (graph d) ! i) = step_language clicked
             \<and> (\<forall>j<i. \<not> (node_label (nodes (graph d) ! j) = step_word clicked
                          \<and> node_language (nodes (graph d) ! j) = step_language clicked))
             \<and> handleTimelineStepClick clicked s =
                 s\<lparr>selectedNode := Some (nodes (graph d) ! i), activeTab := GraphTab\<rparr>"
    by blast
next
  assume "\<forall>n\<in>set (nodes (graph d)).
              \<not> (node_label n = step_word clicked \<and> node_language n = step_language clicked)"
  then have "find (\<lambda>n. node_label n = step_word clicked \<and> node_language n = step_language clicked)
     (nodes (graph d)) = None"
    by (simp add: find_None_iff)
  from handleTimelineStepClick_not_found [OF assms this]
  show "handleTimelineStepClick clicked s = s" .
next
  assume "nodes (graph d) = [a, b]
            \<and> step_word clicked = node_label b \<and> step_language clicked = node_language b
            \<and> \<not> (node_label a = node_label b \<and> node_language a = node_language b)"
  then have "find (\<lambda>n. node_label n = step_word clicked \<and> node_language n = step_language clicked)
     (nodes (graph d)) = Some b"
    by auto
  from handleTimelineStepClick_found [OF assms this]
  show "handleTimelineStepClick clicked s = s\<lparr>selectedNode := Some b, activeTab := GraphTab\<rparr>" .
qed

text \<open>
  Witness for C5: in the example data, a click on the step of the current word selects
  node \<open>b\<close> and shows the graph.
\<close>

theorem timeline_step_click_selects_first_match_witness:
  "handleTimelineStepClick (exampleStep nodeB StepCurrent)
     (initialApp\<lparr>status := SUCCESS, data := Some (exampleData nodeA nodeB)\<rparr>)
   = initialApp\<lparr>status := SUCCESS, data := Some (exampleData nodeA nodeB),
       selectedNode := Some nodeB, activeTab := GraphTab\<rparr>"
proof -
  define s where "s = initialApp\<lparr>status := SUCCESS, data := Some (exampleData nodeA nodeB)\<rparr>"
  have d: "data s = Some (exampleData nodeA nodeB)"
    by (simp add: s_def)
  have h: "nodes (graph (exampleData nodeA nodeB)) = [nodeA, nodeB]
            \<and> step_word (exampleStep nodeB StepCurrent) = node_label nodeB
            \<and> step_language (exampleStep nodeB StepCurrent) = node_language nodeB
            \<and> \<not> (node_label nodeA = node_label nodeB \<and> node_language nodeA = node_language nodeB)"
    by (simp add: exampleData_def exampleStep_def nodeA_def nodeB_def exampleNode_def)
  from timeline_step_click_selects_first_match [OF d, of "exampleStep nodeB StepCurrent" nodeA nodeB] h
  show ?thesis
    by (simp add: s_def)
qed

text \<open>
  Counterexample for C5 as stated: with a root node \<open>a\<close> and a current node \<open>b\<close> that
  carry the same label and language, linked from \<open>a\<close> to \<open>b\<close>, a click on the step with
  the label and language of \<open>b\<close> selects \<open>a\<close>.
\<close>

theorem timeline_step_click_counterexample:
  "nodes (graph (exampleData quarkA quarkB)) = [quarkA, quarkB]
   \<and> links (graph (exampleData quarkA quarkB)) =
       [\<lparr> link_source = ''a'', link_target = ''b'', link_type = LinkDerived \<rparr>]
   \<and> node_id quarkA = ''a'' \<and> node_type quarkA = NodeRoot
   \<and> node_id quarkB = ''b'' \<and> node_type quarkB = NodeCurrent
   \<and> step_word (exampleStep quarkB StepCurrent) = node_label quarkB
   \<and> step_language (exampleStep quarkB StepCurrent) = node_language quarkB
   \<and> selectedNode (handleTimelineStepClick (exampleStep quarkB StepCurrent)
        (initialApp\<lparr>status := SUCCESS, data := Some (exampleData quarkA quarkB)\<rparr>)) = Some quarkA
   \<and> selectedNode (handleTimelineStepClick (exampleStep quarkB StepCurrent)
        (initialApp\<lparr>status := SUCCESS, data := Some (exampleData quarkA quarkB)\<rparr>)) \<noteq> Some quarkB"
  by (simp add: handleTimelineStepClick_def exampleData_def exampleStep_def quarkA_def
        quarkB_def exampleNode_def)


lemma handleSearch_status:
  "status (app (handleSearch sys)) =
     (if trim (word (app sys)) = [] then status (app sys) else LOADING)"
  by (simp add: handleSearch_def split: prod.splits)

lemma handleSearch_invariant:
  assumes "awaiting sys = []" and "mounted sys" and "status (app sys) \<noteq> LOADING"
  shows "oneSearchInFlight (handleSearch sys)"
  using assms by (simp add: handleSearch_def oneSearchInFlight_def split: prod.splits)

lemma errorMessage_cases:
  "errorMessage (ApiError Nullish) = None"
  "errorMessage (ApiError (Value None)) = Some ''Failed to fetch etymology. Please try again.''"
  "errorMessage (ApiError (Value (Some m))) =
     Some (if m = [] then ''Failed to fetch etymology. Please try again.'' else m)"
  "errorMessage NoResponse = Some ''No response from Gemini''"
  "errorMessage (SyntaxError m) =
     Some (if m = [] then ''Failed to fetch etymology. Please try again.'' else m)"
  by (simp_all add: errorMessage_def)

lemma handleSearch_resume_app:
  "app (handleSearch_resume JSON_parse i outcome sys) =
     (case fst (fetchEtymology_resume JSON_parse (awaiting sys ! i) outcome (service sys)) of
        Inr result \<Rightarrow> (app sys)\<lparr>data := Some result, status := SUCCESS\<rparr>
      | Inl err \<Rightarrow>
          (case errorMessage err of
             None \<Rightarrow> app sys
           | Some m \<Rightarrow> (app sys)\<lparr>error := Some m, status := ERROR\<rparr>))"
  by (simp add: handleSearch_resume_def split: prod.splits sum.splits option.splits)

lemma handleSearch_resume_status:
  "status (app (handleSearch_resume JSON_parse i outcome sys)) =
     (case fst (fetchEtymology_resume JSON_parse (awaiting sys ! i) outcome (service sys)) of
        Inr result \<Rightarrow> SUCCESS
      | Inl err \<Rightarrow> (case errorMessage err of None \<Rightarrow> status (app sys) | Some m \<Rightarrow> ERROR))"
  by (simp add: handleSearch_resume_app split: sum.splits option.splits)

lemma handleSearch_resume_awaiting:
  "awaiting (handleSearch_resume JSON_parse i outcome sys) =
     take i (awaiting sys) @ drop (Suc i) (awaiting sys)"
  by (simp add: handleSearch_resume_def split: prod.splits sum.splits option.splits)

lemma handleSearch_resume_mounted:
  "mounted (handleSearch_resume JSON_parse i outcome sys) = mounted sys"
  by (simp add: handleSearch_resume_def split: prod.splits sum.splits option.splits)

lemma handleTimelineStepClick_status:
  "status (handleTimelineStepClick clicked s) = status s"
  by (simp add: handleTimelineStepClick_def split: option.splits)

lemma step_invariant:
  assumes "oneSearchInFlight sys" and "step JSON_parse ev sys = Some sys'"
  shows "oneSearchInFlight sys'"
proof -
  from assms(2) have en: "enabled ev sys" and sys': "sys' = handle JSON_parse ev sys"
    by (auto simp: step_def split: if_splits)
  show ?thesis
  proof (cases ev)
    case Mount
    with en assms(1) have "awaiting (sys\<lparr>mounted := True\<rparr>) = []"
      "status (app (sys\<lparr>mounted := True\<rparr>)) \<noteq> LOADING"
      by (auto simp: oneSearchInFlight_def split: if_splits)
    then have "oneSearchInFlight (handleSearch (sys\<lparr>mounted := True\<rparr>))"
      by (intro handleSearch_invariant) simp_all
    with Mount sys' show ?thesis by simp
  next
    case SubmitForm
    with en assms(1) have "awaiting sys = []" "mounted sys" "status (app sys) \<noteq> LOADING"
      by (auto simp: oneSearchInFlight_def split: if_splits)
    then have "oneSearchInFlight (handleSearch sys)"
      by (rule handleSearch_invariant)
    with SubmitForm sys' show ?thesis by simp
  next
    case Retry
    with en assms(1) have "awaiting sys = []" "mounted sys" "status (app sys) \<noteq> LOADING"
      by (auto simp: oneSearchInFlight_def split: if_splits)
    then have "oneSearchInFlight (handleSearch sys)"
      by (rule handleSearch_invariant)
    with Retry sys' show ?thesis by simp
  next
    case (Settled i outcome)
    with en assms(1) have "length (awaiting sys) = 1" "i = 0" "mounted sys"
      by (auto simp: oneSearchInFlight_def split: if_splits)
    then have "awaiting (handleSearch_resume JSON_parse i outcome sys) = []"
      "mounted (handleSearch_resume JSON_parse i outcome sys)"
      by (simp_all add: handleSearch_resume_awaiting handleSearch_resume_mounted)
    then show ?thesis
      using Settled sys' by (simp add: oneSearchInFlight_def)
  next
    case (TimelineStepClick clicked)
    with assms(1) sys' show ?thesis
      by (auto simp: oneSearchInFlight_def handleTimelineStepClick_status split: if_splits)
  qed (use assms(1) sys' in
        \<open>auto simp: oneSearchInFlight_def handleNodeClick_def closeOverlay_def split: if_splits\<close>)
qed

lemma run_invariant:
  "oneSearchInFlight sys \<Longrightarrow> run JSON_parse evs sys = Some sys' \<Longrightarrow> oneSearchInFlight sys'"
proof (induction evs arbitrary: sys)
  case Nil
  then show ?case by simp
next
  case (Cons ev evs)
  from Cons.prems(2) obtain mid where m: "step JSON_parse ev sys = Some mid"
    and r: "run JSON_parse evs mid = Some sys'"
    by (auto split: option.splits)
  from step_invariant [OF Cons.prems(1) m] r show ?case
    by (rule Cons.IH)
qed

lemma initial_invariant: "oneSearchInFlight initialSystem"
  by (simp add: oneSearchInFlight_def initialSystem_def initialApp_def)

lemma submission_cases: "ev = Mount \<or> ev = SubmitForm \<or> ev = Retry \<Longrightarrow>
  app (handle JSON_parse ev sys) = app (handleSearch sys)
  \<and> awaiting (handle JSON_parse ev sys) = awaiting (handleSearch sys)
  \<and> service (handle JSON_parse ev sys) = service (handleSearch sys)"
  by (auto simp: handleSearch_def split: prod.splits)

text \<open>
  The status machine. In every state reachable from the initial one, an event that changes
  the status follows an edge of the machine (\<^verbatim>\<open>IDLE\<close> to \<^verbatim>\<open>LOADING\<close>, \<^verbatim>\<open>LOADING\<close> to
  \<^verbatim>\<open>SUCCESS\<close> or \<^verbatim>\<open>ERROR\<close>, \<^verbatim>\<open>SUCCESS\<close> or \<^verbatim>\<open>ERROR\<close> to \<^verbatim>\<open>LOADING\<close>) and is a
  submission or the settlement of one. A submission with a non-blank word happens outside
  \<^verbatim>\<open>LOADING\<close>, sets the status to \<^verbatim>\<open>LOADING\<close>, clears the error and the selection, and
  suspends on the call of \<^verbatim>\<open>fetchEtymology\<close> for the word and language. A settlement
  happens in \<^verbatim>\<open>LOADING\<close>. When \<^verbatim>\<open>fetchEtymology\<close> returns, the status becomes
  \<^verbatim>\<open>SUCCESS\<close> and the data is stored. When it throws a value other than \<^verbatim>\<open>null\<close> and
  \<^verbatim>\<open>undefined\<close>, the status becomes \<^verbatim>\<open>ERROR\<close> and the stored message is the value's
  message if that is a non-empty string, and the default message otherwise. When it throws
  \<^verbatim>\<open>null\<close> or \<^verbatim>\<open>undefined\<close>, the component state stays as it is.
\<close>

lemma status_transitions:
  assumes "run JSON_parse evs initialSystem = Some sys"
    and "step JSON_parse ev sys = Some sys'"
  shows "(status (app sys') \<noteq> status (app sys) \<longrightarrow>
            transition (status (app sys)) (status (app sys'))
            \<and> (ev = Mount \<or> ev = SubmitForm \<or> ev = Retry \<or> (\<exists>i outcome. ev = Settled i outcome)))
       \<and> ((ev = Mount \<or> ev = SubmitForm \<or> ev = Retry) \<and> trim (word (app sys)) \<noteq> [] \<longrightarrow>
            status (app sys) \<noteq> LOADING
            \<and> status (app sys') = LOADING \<and> error (app sys') = None
            \<and> selectedNode (app sys') = None
            \<and> awaiting sys' =
                [fst (fetchEtymology_begin (word (app sys)) (language (app sys)) (service sys))])
       \<and> (ev = Settled i outcome \<longrightarrow>
            status (app sys) = LOADING
            \<and> (case fst (fetchEtymology_resume JSON_parse (awaiting sys ! i) outcome (service sys)) of
                  Inr result \<Rightarrow> status (app sys') = SUCCESS \<and> data (app sys') = Some result
                | Inl (ApiError Nullish) \<Rightarrow> app sys' = app sys
                | Inl (ApiError (Value None)) \<Rightarrow>
                    status (app sys') = ERROR
                    \<and> error (app sys') = Some ''Failed to fetch etymology. Please try again.''
                | Inl (ApiError (Value (Some m))) \<Rightarrow>
                    status (app sys') = ERROR
                    \<and> error (app sys') =
                        Some (if m = [] then ''Failed to fetch etymology. Please try again.'' else m)
                | Inl NoResponse \<Rightarrow>
                    status (app sys') = ERROR \<and> error (app sys') = Some ''No response from Gemini''
                | Inl (SyntaxError m) \<Rightarrow>
                    status (app sys') = ERROR
                    \<and> error (app sys') =
                        Some (if m = [] then ''Failed to fetch etymology. Please try again.'' else m)))"
proof -
  from run_invariant [OF initial_invariant assms(1)] have inv: "oneSearchInFlight sys" .
  from assms(2) have en: "enabled ev sys" and sys': "sys' = handle JSON_parse ev sys"
    by (auto simp: step_def split: if_splits)
  have idle: "status (app sys) \<noteq> LOADING \<Longrightarrow> transition (status (app sys)) LOADING"
    by (cases "status (app sys)") (simp_all add: transition_def)
  have sub_idle: "status (app sys) \<noteq> LOADING \<and> awaiting sys = []"
    if "ev = Mount \<or> ev = SubmitForm \<or> ev = Retry"
    using that en inv by (auto simp: oneSearchInFlight_def split: if_splits)
  have settled_loading: "status (app sys) = LOADING" if "ev = Settled i outcome" for i outcome
    using that en inv by (auto simp: oneSearchInFlight_def split: if_splits)
  have part1: "transition (status (app sys)) (status (app sys'))
            \<and> (ev = Mount \<or> ev = SubmitForm \<or> ev = Retry \<or> (\<exists>i outcome. ev = Settled i outcome))"
    if ch: "status (app sys') \<noteq> status (app sys)"
  proof (cases "ev = Mount \<or> ev = SubmitForm \<or> ev = Retry")
    case True
    from submission_cases [OF True, of JSON_parse sys] sys'
    have "status (app sys') = status (app (handleSearch sys))"
      by simp
    with ch have "status (app sys') = LOADING"
      by (simp add: handleSearch_status split: if_splits)
    with idle sub_idle [OF True] True show ?thesis
      by auto
  next
    case False
    show ?thesis
    proof (cases ev)
      case (Settled j out)
      from settled_loading [OF Settled] have l: "status (app sys) = LOADING" .
      from Settled sys' ch l have "status (app sys') = SUCCESS \<or> status (app sys') = ERROR"
        by (simp add: handleSearch_resume_status split: sum.splits option.splits)
      with l Settled show ?thesis
        by (auto simp: transition_def)
    next
      case (TimelineStepClick clicked)
      with sys' ch show ?thesis
        by (simp add: handleTimelineStepClick_status)
    qed (use False sys' ch in \<open>simp_all add: handleNodeClick_def closeOverlay_def\<close>)
  qed
  have part2: "status (app sys) \<noteq> LOADING
            \<and> status (app sys') = LOADING \<and> error (app sys') = None
            \<and> selectedNode (app sys') = None
            \<and> awaiting sys' =
                [fst (fetchEtymology_begin (word (app sys)) (language (app sys)) (service sys))]"
    if s: "ev = Mount \<or> ev = SubmitForm \<or> ev = Retry" and w: "trim (word (app sys)) \<noteq> []"
    using submission_cases [OF s, of JSON_parse sys] sys' sub_idle [OF s]
    by (simp add: handleSearch_nonblank [OF w])
  have part3: "status (app sys) = LOADING
            \<and> (case fst (fetchEtymology_resume JSON_parse (awaiting sys ! i) outcome (service sys)) of
                  Inr result \<Rightarrow> status (app sys') = SUCCESS \<and> data (app sys') = Some result
                | Inl (ApiError Nullish) \<Rightarrow> app sys' = app sys
                | Inl (ApiError (Value None)) \<Rightarrow>
                    status (app sys') = ERROR
                    \<and> error (app sys') = Some ''Failed to fetch etymology. Please try again.''
                | Inl (ApiError (Value (Some m))) \<Rightarrow>
                    status (app sys') = ERROR
                    \<and> error (app sys') =
                        Some (if m = [] then ''Failed to fetch etymology. Please try again.'' else m)
                | Inl NoResponse \<Rightarrow>
                    status (app sys') = ERROR \<and> error (app sys') = Some ''No response from Gemini''
                | Inl (SyntaxError m) \<Rightarrow>
                    status (app sys') = ERROR
                    \<and> error (app sys') =
                        Some (if m = [] then ''Failed to fetch etymology. Please try again.'' else m))"
    if s: "ev = Settled i outcome"
    using settled_loading [OF s] sys' s
    by (simp add: handleSearch_resume_app errorMessage_cases
          split: sum.splits js_error.splits rejection.splits option.splits)
  from part1 part2 part3 show ?thesis
    by blast
qed

lemma initial_word_not_blank: "trim INITIAL_WORD \<noteq> []"
  unfolding INITIAL_WORD_def by code_simp

lemma initial_cacheKey: "cacheKey INITIAL_WORD INITIAL_LANG = ''etymon-english''"
  unfolding INITIAL_WORD_def INITIAL_LANG_def by code_simp

lemma mount_example:
  "handleSearch (initialSystem\<lparr>mounted := True\<rparr>) =
     \<lparr> app = initialApp\<lparr>status := LOADING\<rparr>,
       service = \<lparr> searchCache = Map.empty,
                   requests = [(''etymon-english'',
                                generateContentParameters INITIAL_WORD INITIAL_LANG)],
                   console = [] \<rparr>,
       awaiting = [Miss ''etymon-english''],
       mounted = True \<rparr>"
  by (simp add: handleSearch_def initialSystem_def initialApp_def initialService_def
        initial_word_not_blank initial_cacheKey fetchEtymology_begin_def Let_def)

text \<open>
  The mount effect takes the initial state from \<^verbatim>\<open>IDLE\<close> to \<^verbatim>\<open>LOADING\<close>, and the
  settlement of its request with the example document takes it to \<^verbatim>\<open>SUCCESS\<close> with the
  example data.
\<close>

lemma status_transitions_success_example:
  "run exampleParse [Mount] initialSystem = Some (handle exampleParse Mount initialSystem)
   \<and> step exampleParse (Settled 0 (Resolved (Some ''{etymon}'')))
         (handle exampleParse Mount initialSystem)
       = Some (handle exampleParse (Settled 0 (Resolved (Some ''{etymon}'')))
                (handle exampleParse Mount initialSystem))
   \<and> status (app initialSystem) = IDLE
   \<and> status (app (handle exampleParse Mount initialSystem)) = LOADING
   \<and> status (app (handle exampleParse (Settled 0 (Resolved (Some ''{etymon}'')))
                (handle exampleParse Mount initialSystem))) = SUCCESS
   \<and> data (app (handle exampleParse (Settled 0 (Resolved (Some ''{etymon}'')))
                (handle exampleParse Mount initialSystem))) = Some (exampleData nodeA nodeB)"
proof -
  have r: "run exampleParse [Mount] initialSystem = Some (handle exampleParse Mount initialSystem)"
    by (simp add: step_def initialSystem_def)
  have s: "step exampleParse (Settled 0 (Resolved (Some ''{etymon}'')))
         (handle exampleParse Mount initialSystem)
       = Some (handle exampleParse (Settled 0 (Resolved (Some ''{etymon}'')))
                (handle exampleParse Mount initialSystem))"
    by (simp add: step_def mount_example)
  have f: "fst (fetchEtymology_resume exampleParse
              (awaiting (handle exampleParse Mount initialSystem) ! 0)
              (Resolved (Some ''{etymon}''))
              (service (handle exampleParse Mount initialSystem)))
           = Inr (exampleData nodeA nodeB)"
    by (simp add: mount_example fetchEtymology_resume_def fetchEtymology_settle_def
          parseResponse_def exampleParse_def)
  have i: "status (app initialSystem) = IDLE"
    by (simp add: initialSystem_def initialApp_def)
  from status_transitions [OF r s, of 0 "Resolved (Some ''{etymon}'')"] f
  have "status (app (handle exampleParse Mount initialSystem)) = LOADING
      \<and> status (app (handle exampleParse (Settled 0 (Resolved (Some ''{etymon}'')))
                (handle exampleParse Mount initialSystem))) = SUCCESS
      \<and> data (app (handle exampleParse (Settled 0 (Resolved (Some ''{etymon}'')))
                (handle exampleParse Mount initialSystem))) = Some (exampleData nodeA nodeB)"
    by simp
  with r s i show ?thesis
    by simp
qed

lemma mounted_example:
  "handle JSON_parse Mount initialSystem =
     \<lparr> app = initialApp\<lparr>status := LOADING\<rparr>,
       service = \<lparr> searchCache = Map.empty,
                   requests = [(''etymon-english'',
                                generateContentParameters INITIAL_WORD INITIAL_LANG)],
                   console = [] \<rparr>,
       awaiting = [Miss ''etymon-english''],
       mounted = True \<rparr>"
  by (simp add: mount_example)

lemma mount_then_settle:
  "run JSON_parse [Mount, Settled 0 outcome] initialSystem
     = Some (handle JSON_parse (Settled 0 outcome) (handle JSON_parse Mount initialSystem))"
proof -
  have "enabled Mount initialSystem"
    by (simp add: initialSystem_def)
  moreover have "enabled (Settled 0 outcome) (handle JSON_parse Mount initialSystem)"
    unfolding mounted_example by simp
  ultimately show ?thesis
    by (simp add: step_def)
qed

text \<open>
  Failing settlements of the first search: a text that does not parse, a response without
  text, a rejection without a message and a rejection with one.
\<close>

lemma status_transitions_failure_example:
  "run exampleParse [Mount, Settled 0 (Resolved (Some ''not json''))] initialSystem
     = Some (handle exampleParse (Settled 0 (Resolved (Some ''not json'')))
               (handle exampleParse Mount initialSystem))
   \<and> status (app (handle exampleParse (Settled 0 (Resolved (Some ''not json'')))
               (handle exampleParse Mount initialSystem))) = ERROR
   \<and> error (app (handle exampleParse (Settled 0 (Resolved (Some ''not json'')))
               (handle exampleParse Mount initialSystem))) = Some ''Unexpected token''
   \<and> status (app (handle exampleParse (Settled 0 (Resolved None))
               (handle exampleParse Mount initialSystem))) = ERROR
   \<and> error (app (handle exampleParse (Settled 0 (Resolved None))
               (handle exampleParse Mount initialSystem))) = Some ''No response from Gemini''
   \<and> error (app (handle exampleParse (Settled 0 (Rejected (Value None)))
               (handle exampleParse Mount initialSystem)))
       = Some ''Failed to fetch etymology. Please try again.''
   \<and> error (app (handle exampleParse (Settled 0 (Rejected (Value (Some ''Failed to fetch''))))
               (handle exampleParse Mount initialSystem))) = Some ''Failed to fetch''"
  unfolding mount_then_settle mounted_example
  by (simp add: handleSearch_resume_def fetchEtymology_resume_def fetchEtymology_settle_def
        parseResponse_def exampleParse_def errorMessage_def)


text \<open>
  A mounted component in \<^verbatim>\<open>LOADING\<close> with no suspended call stays so under every sequence
  of events: the submit button is disabled, Retry is not rendered, and nothing is left to
  settle.
\<close>

lemma stuck_in_loading:
  assumes "status (app sys) = LOADING" and "awaiting sys = []" and "mounted sys"
    and "run JSON_parse evs sys = Some sys'"
  shows "status (app sys') = LOADING \<and> awaiting sys' = [] \<and> mounted sys'"
  using assms
proof (induction evs arbitrary: sys)
  case Nil
  then show ?case by simp
next
  case (Cons ev evs)
  from Cons.prems(4) obtain mid where m: "step JSON_parse ev sys = Some mid"
    and r: "run JSON_parse evs mid = Some sys'"
    by (auto split: option.splits)
  from m have en: "enabled ev sys" and mid: "mid = handle JSON_parse ev sys"
    by (auto simp: step_def split: if_splits)
  have "status (app mid) = LOADING \<and> awaiting mid = [] \<and> mounted mid"
    using en Cons.prems(1-3) unfolding mid
    by (cases ev)
       (simp_all add: handleNodeClick_def closeOverlay_def handleTimelineStepClick_status)
  with r show ?case
    using Cons.IH by blast
qed

section \<open>Properties of the response schema\<close>

lemma timelineItemSchema_eq:
  "timelineItemSchema = Some
     (objectSchema
        [(''era'', stringSchema),
         (''language'', stringSchema),
         (''word'', stringSchema),
         (''transliteration'',
            describedSchema ''Romanization for non-Latin scripts (e.g., Pinyin, Romaji)''),
         (''meaning'', stringSchema),
         (''type'',
            enumSchema [''root'', ''ancestor'', ''derived'', ''cognate'', ''borrowing'',
                        ''current'']),
         (''description'', stringSchema)]
        [''era'', ''language'', ''word'', ''meaning'', ''type''])"
  by (simp add: timelineItemSchema_def responseSchema_def property_def objectSchema_def
        arraySchema_def)

lemma nodeItemSchema_names:
  "propertyNames nodeItemSchema =
     [''id'', ''label'', ''transliteration'', ''language'', ''definition'', ''era'', ''type'']
   \<and> requiredNames nodeItemSchema =
       Some [''id'', ''label'', ''language'', ''type'', ''definition'', ''era'']
   \<and> enumOf ''type'' nodeItemSchema =
       Some [''root'', ''ancestor'', ''current'', ''cognate'', ''derivative'']"
  by (simp add: nodeItemSchema_def responseSchema_def property_def objectSchema_def
        arraySchema_def propertyNames_def requiredNames_def enumOf_def enumSchema_def)

lemma linkItemSchema_names:
  "propertyNames linkItemSchema = [''source'', ''target'', ''type'']
   \<and> requiredNames linkItemSchema = Some [''source'', ''target'', ''type'']
   \<and> enumOf ''type'' linkItemSchema = Some [''derived'', ''borrowed'', ''cognate'']"
  by (simp add: linkItemSchema_def responseSchema_def property_def objectSchema_def
        arraySchema_def propertyNames_def requiredNames_def enumOf_def enumSchema_def)

lemma timelineItemSchema_names:
  "propertyNames timelineItemSchema =
     [''era'', ''language'', ''word'', ''transliteration'', ''meaning'', ''type'',
      ''description'']
   \<and> requiredNames timelineItemSchema =
       Some [''era'', ''language'', ''word'', ''meaning'', ''type'']
   \<and> enumOf ''type'' timelineItemSchema =
       Some [''root'', ''ancestor'', ''derived'', ''cognate'', ''borrowing'', ''current'']"
  by (simp add: timelineItemSchema_eq property_def objectSchema_def
        propertyNames_def requiredNames_def enumOf_def enumSchema_def)

lemma top_names:
  "propertyNames (Some responseSchema) =
     [''word'', ''language'', ''summary'', ''timeline'', ''graph'']
   \<and> requiredNames (Some responseSchema) =
       Some [''word'', ''language'', ''summary'', ''timeline'', ''graph'']"
  by (simp add: responseSchema_def objectSchema_def propertyNames_def requiredNames_def)

lemma stepTypeName_range:
  "range stepTypeName =
     set [''root'', ''ancestor'', ''derived'', ''cognate'', ''borrowing'', ''current'']"
proof -
  have u: "(UNIV :: TimelineStepType set) =
      {StepRoot, StepAncestor, StepDerived, StepCognate, StepBorrowing, StepCurrent}"
    using TimelineStepType.exhaust by blast
  show ?thesis
    unfolding u by simp
qed

lemma nodeTypeName_range:
  "range nodeTypeName = set [''root'', ''ancestor'', ''current'', ''cognate'', ''derivative'']"
proof -
  have u: "(UNIV :: GraphNodeType set) =
      {NodeRoot, NodeAncestor, NodeCurrent, NodeCognate, NodeDerivative}"
    using GraphNodeType.exhaust by blast
  show ?thesis
    unfolding u by simp
qed

lemma linkTypeName_range:
  "range linkTypeName = set [''derived'', ''borrowed'', ''cognate'']"
proof -
  have u: "(UNIV :: GraphLinkType set) = {LinkDerived, LinkBorrowed, LinkCognate}"
    using GraphLinkType.exhaust by blast
  show ?thesis
    unfolding u by simp
qed

text \<open>
  Claim C10. The required fields of \<^verbatim>\<open>responseSchema\<close>: at the top \<^verbatim>\<open>word\<close>,
  \<^verbatim>\<open>language\<close>, \<^verbatim>\<open>summary\<close>, \<^verbatim>\<open>timeline\<close>, \<^verbatim>\<open>graph\<close>; in a timeline item
  \<^verbatim>\<open>era\<close>, \<^verbatim>\<open>language\<close>, \<^verbatim>\<open>word\<close>, \<^verbatim>\<open>meaning\<close> and \<^verbatim>\<open>type\<close>, the latter over
  the six step kinds, with \<^verbatim>\<open>transliteration\<close> and \<^verbatim>\<open>description\<close> the only optional
  properties; in a graph node \<^verbatim>\<open>id\<close>, \<^verbatim>\<open>label\<close>, \<^verbatim>\<open>language\<close>, \<^verbatim>\<open>definition\<close>,
  \<^verbatim>\<open>era\<close> and \<^verbatim>\<open>type\<close>, the latter over the five node kinds; in a link \<^verbatim>\<open>source\<close>,
  \<^verbatim>\<open>target\<close> and \<^verbatim>\<open>type\<close>, the latter over the three link kinds. Each enumeration
  is the union type of \<^verbatim>\<open>types.ts\<close>.
\<close>

theorem responseSchema_required_fields:
  "requiredNames (Some responseSchema) =
     Some [''word'', ''language'', ''summary'', ''timeline'', ''graph'']
   \<and> requiredNames timelineItemSchema =
       Some [''era'', ''language'', ''word'', ''meaning'', ''type'']
   \<and> enumOf ''type'' timelineItemSchema =
       Some [''root'', ''ancestor'', ''derived'', ''cognate'', ''borrowing'', ''current'']
   \<and> set (propertyNames timelineItemSchema) - set (the (requiredNames timelineItemSchema)) =
       {''transliteration'', ''description''}
   \<and> set (the (requiredNames nodeItemSchema)) =
       {''id'', ''label'', ''language'', ''definition'', ''era'', ''type''}
   \<and> enumOf ''type'' nodeItemSchema =
       Some [''root'', ''ancestor'', ''current'', ''cognate'', ''derivative'']
   \<and> requiredNames linkItemSchema = Some [''source'', ''target'', ''type'']
   \<and> enumOf ''type'' linkItemSchema = Some [''derived'', ''borrowed'', ''cognate'']
   \<and> set (the (enumOf ''type'' timelineItemSchema)) = range stepTypeName
   \<and> set (the (enumOf ''type'' nodeItemSchema)) = range nodeTypeName
   \<and> set (the (enumOf ''type'' linkItemSchema)) = range linkTypeName"
  unfolding stepTypeName_range nodeTypeName_range linkTypeName_range
  by (simp add: top_names timelineItemSchema_names nodeItemSchema_names linkItemSchema_names)
     auto

end
